theory Spec2Isabelle
  imports Complex_Main "HOL-Library.Log_Nat" "HOL-Library.Word" "HOL-Library.Sublist"
begin

section \<open>float64\<close>

text \<open>
  Go's \<^verbatim>\<open>float64\<close> is IEEE 754 binary64. A value is a finite binary fraction (kept as the
  rational number it denotes), an infinity or NaN. The sign of zero is not kept: the
  program only compares and multiplies prices, and both treat the two zeros alike.
\<close>

datatype float64 = Finite rat | PInf | NInf | NaN

text \<open>Rounding to the nearest integer, ties to the even one.\<close>

definition roundHalfEven :: "rat \<Rightarrow> int" where
  "roundHalfEven x =
     (let f = \<lfloor>x\<rfloor>; r = x - of_int f in
      if r < 1 / 2 then f
      else if 1 / 2 < r then f + 1
      else if even f then f else f + 1)"

text \<open>The binary exponent of a positive rational: \<open>2 ^ ilog2 x \<le> x < 2 ^ (ilog2 x + 1)\<close>.\<close>

definition ilog2 :: "rat \<Rightarrow> int" where
  "ilog2 x = (if 1 \<le> x then bitlen \<lfloor>x\<rfloor> - 1 else - bitlen (\<lceil>1 / x\<rceil> - 1))"

text \<open>
  The spacing of binary64 numbers around a positive \<open>x\<close>: 53 significant bits, and the
  subnormal spacing \<open>2 ^ -1074\<close> below \<open>2 ^ -1022\<close>.
\<close>

definition quantum :: "rat \<Rightarrow> rat" where
  "quantum x = 2 powi (max (ilog2 x) (- 1022) - 52)"

definition roundPos :: "rat \<Rightarrow> rat" where
  "roundPos x = of_int (roundHalfEven (x / quantum x)) * quantum x"

text \<open>
  Round to nearest, ties to even, overflowing to an infinity from \<open>2 ^ 1024\<close> on: the
  rounding of every binary64 operation and of every constant of the source.
\<close>

definition round64 :: "rat \<Rightarrow> float64" where
  "round64 x =
     (if x = 0 then Finite 0
      else let a = roundPos \<bar>x\<bar> in
        if 2 powi 1024 \<le> a then (if 0 < x then PInf else NInf)
        else Finite (if 0 < x then a else - a))"

text \<open>\<^verbatim>\<open>a * b\<close> on float64.\<close>

fun fsign :: "float64 \<Rightarrow> int" where
  "fsign (Finite x) = (if x < 0 then - 1 else if x = 0 then 0 else 1)"
| "fsign PInf = 1"
| "fsign NInf = - 1"
| "fsign NaN = 0"

fun fmul :: "float64 \<Rightarrow> float64 \<Rightarrow> float64" where
  "fmul (Finite x) (Finite y) = round64 (x * y)"
| "fmul NaN b = NaN"
| "fmul a NaN = NaN"
| "fmul a b =
     (let s = fsign a * fsign b in
      if s = 0 then NaN else if 0 < s then PInf else NInf)"

text \<open>\<^verbatim>\<open>a <= b\<close> and \<^verbatim>\<open>a >= b\<close> on float64: false as soon as one side is NaN.\<close>

fun fle :: "float64 \<Rightarrow> float64 \<Rightarrow> bool" where
  "fle NaN b = False"
| "fle a NaN = False"
| "fle NInf b = True"
| "fle a PInf = True"
| "fle PInf b = False"
| "fle a NInf = False"
| "fle (Finite x) (Finite y) = (x \<le> y)"

definition fge :: "float64 \<Rightarrow> float64 \<Rightarrow> bool" where
  "fge a b = fle b a"

section \<open>Library functions the program calls\<close>

text \<open>A Go string is a sequence of bytes; \<open>byte c\<close> is the value of one.\<close>

definition byte :: "char \<Rightarrow> int" where
  "byte c = of_char c"

subsection \<open>strconv.ParseFloat\<close>

text \<open>
  \<^verbatim>\<open>strconv.ParseFloat(s, 64)\<close> of Go's standard library, after its documentation and its
  scanner: an optional sign, then \<^verbatim>\<open>inf\<close>, \<^verbatim>\<open>infinity\<close> or (unsigned) \<^verbatim>\<open>nan\<close> in any case, or
  a decimal mantissa with an optional decimal exponent, or a hexadecimal mantissa with a
  mandatory binary exponent; underscores may separate digits. The whole string must be
  consumed. The value is the nearest float64; a value that rounds to an infinity is a
  range error.
\<close>

datatype parse_error = ErrSyntax | ErrRange

definition isDigit :: "char \<Rightarrow> bool" where
  "isDigit c = (48 \<le> byte c \<and> byte c \<le> 57)"

text \<open>Go's \<^verbatim>\<open>lower(c) = c | ('x' - 'X')\<close>: the byte with bit 5 set.\<close>

definition lower :: "char \<Rightarrow> int" where
  "lower c = (if even (byte c div 32) then byte c + 32 else byte c)"

definition isHexLetter :: "char \<Rightarrow> bool" where
  "isHexLetter c = (97 \<le> lower c \<and> lower c \<le> 102)"

fun commonPrefixLenIgnoreCase :: "string \<Rightarrow> string \<Rightarrow> nat" where
  "commonPrefixLenIgnoreCase (c # s) (p # ps) =
     (let c' = (if 65 \<le> byte c \<and> byte c \<le> 90 then byte c + 32 else byte c) in
      if c' \<noteq> byte p then 0 else 1 + commonPrefixLenIgnoreCase s ps)"
| "commonPrefixLenIgnoreCase s ps = 0"

definition infinityPrefix :: "bool \<Rightarrow> nat \<Rightarrow> string \<Rightarrow> (float64 \<times> nat) option" where
  "infinityPrefix neg nsign s =
     (let n0 = commonPrefixLenIgnoreCase s ''infinity'';
          n = (if 3 < n0 \<and> n0 < 8 then 3 else n0) in
      if n = 3 \<or> n = 8 then Some (if neg then NInf else PInf, nsign + n) else None)"

text \<open>\<^verbatim>\<open>special\<close>: the value and the number of bytes read, when \<open>s\<close> starts with a special value.\<close>

definition special :: "string \<Rightarrow> (float64 \<times> nat) option" where
  "special s =
     (case s of
        [] \<Rightarrow> None
      | c # rest \<Rightarrow>
          if c = CHR ''+'' \<or> c = CHR ''-'' then infinityPrefix (c = CHR ''-'') 1 rest
          else if c = CHR ''i'' \<or> c = CHR ''I'' then infinityPrefix False 0 s
          else if c = CHR ''n'' \<or> c = CHR ''N'' then
            (if commonPrefixLenIgnoreCase s ''nan'' = 3 then Some (NaN, 3) else None)
          else None)"

text \<open>
  The mantissa scan of \<^verbatim>\<open>readFloat\<close>. Go keeps the first 19 digits and a flag for the
  rest, and its conversions round correctly all the same; the model keeps every digit.
\<close>

record mantissa_scan =
  mantissa :: int
  nd :: int
  dp :: int
  sawdot :: bool
  sawdigits :: bool
  underscores :: bool

fun readDigits :: "int \<Rightarrow> string \<Rightarrow> mantissa_scan \<Rightarrow> mantissa_scan \<times> string" where
  "readDigits base [] m = (m, [])"
| "readDigits base (c # cs) m =
     (if c = CHR ''_'' then readDigits base cs (m\<lparr>underscores := True\<rparr>)
      else if c = CHR ''.'' then
        (if sawdot m then (m, c # cs)
         else readDigits base cs (m\<lparr>sawdot := True, dp := nd m\<rparr>))
      else if isDigit c then
        (if c = CHR ''0'' \<and> nd m = 0 then
           readDigits base cs (m\<lparr>sawdigits := True, dp := dp m - 1\<rparr>)
         else
           readDigits base cs
             (m\<lparr>sawdigits := True, nd := nd m + 1,
               mantissa := mantissa m * base + (byte c - 48)\<rparr>))
      else if base = 16 \<and> isHexLetter c then
        readDigits base cs
          (m\<lparr>sawdigits := True, nd := nd m + 1,
            mantissa := mantissa m * 16 + (lower c - 97 + 10)\<rparr>)
      else (m, c # cs))"

text \<open>The digits of the exponent; it stops growing at five digits, as in Go.\<close>

fun readExponent :: "string \<Rightarrow> int \<Rightarrow> bool \<Rightarrow> int \<times> bool \<times> string" where
  "readExponent [] e us = (e, us, [])"
| "readExponent (c # cs) e us =
     (if c = CHR ''_'' then readExponent cs e True
      else if isDigit c then readExponent cs (if e < 10000 then e * 10 + (byte c - 48) else e) us
      else (e, us, c # cs))"

datatype saw = SawStart | SawDigit | SawUnderscore | SawOther

fun underscoreScan :: "bool \<Rightarrow> saw \<Rightarrow> string \<Rightarrow> bool" where
  "underscoreScan hex s [] = (s \<noteq> SawUnderscore)"
| "underscoreScan hex s (c # cs) =
     (if isDigit c \<or> hex \<and> isHexLetter c then underscoreScan hex SawDigit cs
      else if c = CHR ''_'' then
        (if s \<noteq> SawDigit then False else underscoreScan hex SawUnderscore cs)
      else if s = SawUnderscore then False
      else underscoreScan hex SawOther cs)"

definition stripSign :: "string \<Rightarrow> bool \<times> string" where
  "stripSign s =
     (case s of
        [] \<Rightarrow> (False, s)
      | c # cs \<Rightarrow>
          if c = CHR ''+'' then (False, cs)
          else if c = CHR ''-'' then (True, cs) else (False, s))"

text \<open>An underscore stands only between digits, or between a base prefix and a digit.\<close>

definition underscoreOK :: "string \<Rightarrow> bool" where
  "underscoreOK s =
     (let s1 = snd (stripSign s) in
      case s1 of
        a # b # rest \<Rightarrow>
          if a = CHR ''0'' \<and> (lower b = 98 \<or> lower b = 111 \<or> lower b = 120)
          then underscoreScan (lower b = 120) SawDigit rest
          else underscoreScan False SawStart s1
      | _ \<Rightarrow> underscoreScan False SawStart s1)"

text \<open>
  \<^verbatim>\<open>readFloat\<close>: the sign, the base of the exponent (2 after a hexadecimal mantissa, else
  10), the mantissa, the exponent and the bytes left over; None on a syntax error.
\<close>

definition readFloat :: "string \<Rightarrow> (bool \<times> int \<times> int \<times> int \<times> string) option" where
  "readFloat s =
     (let (neg, s1) = stripSign s;
          hex = (case s1 of a # b # c # rest \<Rightarrow> a = CHR ''0'' \<and> lower b = 120 | _ \<Rightarrow> False);
          (m, s2) = readDigits (if hex then 16 else 10) (if hex then drop 2 s1 else s1)
              \<lparr>mantissa = 0, nd = 0, dp = 0, sawdot = False, sawdigits = False,
               underscores = False\<rparr>;
          dp0 = (if sawdot m then dp m else nd m);
          dp1 = (if hex then dp0 * 4 else dp0);
          ndMant = (if hex then nd m * 4 else nd m);
          expChar = (if hex then 112 else 101)
      in
      if \<not> sawdigits m then None
      else
        (case (case s2 of
                 [] \<Rightarrow> (if hex then None else Some (dp1, False, s2))
               | c # cs \<Rightarrow>
                   if lower c = expChar then
                     (let (eneg, s3) = stripSign cs in
                      case s3 of
                        [] \<Rightarrow> None
                      | d # ds \<Rightarrow>
                          if \<not> isDigit d then None
                          else
                            (let (e, us, s4) = readExponent s3 0 False in
                             Some (dp1 + (if eneg then - e else e), us, s4)))
                   else if hex then None
                   else Some (dp1, False, s2)) of
           None \<Rightarrow> None
         | Some (dp2, us, rest) \<Rightarrow>
             if (underscores m \<or> us) \<and> \<not> underscoreOK (take (length s - length rest) s)
             then None
             else Some (neg, if hex then 2 else 10, mantissa m, dp2 - ndMant, rest)))"

definition ParseFloat :: "string \<Rightarrow> parse_error + float64" where
  "ParseFloat s =
     (case special s of
        Some (f, n) \<Rightarrow> if n = length s then Inr f else Inl ErrSyntax
      | None \<Rightarrow>
          (case readFloat s of
             None \<Rightarrow> Inl ErrSyntax
           | Some (neg, b, m, e, rest) \<Rightarrow>
               if rest \<noteq> [] then Inl ErrSyntax
               else
                 (case round64 ((if neg then - 1 else 1) * of_int m * of_int b powi e) of
                    Finite x \<Rightarrow> Inr (Finite x)
                  | _ \<Rightarrow> Inl ErrRange)))"

subsection \<open>strings.TrimSpace, strings.ToLower, strings.Join\<close>

text \<open>
  The UTF-8 encodings of the code points Go's \<^verbatim>\<open>unicode.IsSpace\<close> accepts: tab, line feed,
  vertical tab, form feed, carriage return, space, U+0085, U+00A0, U+1680, U+2000 to
  U+200A, U+2028, U+2029, U+202F, U+205F and U+3000.
\<close>

definition spaceRunes :: "string list" where
  "spaceRunes = map (map char_of)
     [[9::int], [10], [11], [12], [13], [32], [194, 133], [194, 160], [225, 154, 128],
      [226, 128, 128], [226, 128, 129], [226, 128, 130], [226, 128, 131], [226, 128, 132],
      [226, 128, 133], [226, 128, 134], [226, 128, 135], [226, 128, 136], [226, 128, 137],
      [226, 128, 138], [226, 128, 168], [226, 128, 169], [226, 128, 175], [226, 129, 159],
      [227, 128, 128]]"

text \<open>The length of the white space rune \<open>s\<close> starts with, 0 when it starts with none.\<close>

definition spaceLen :: "string list \<Rightarrow> string \<Rightarrow> nat" where
  "spaceLen runes s = (case find (\<lambda>w. w \<noteq> [] \<and> prefix w s) runes of None \<Rightarrow> 0 | Some w \<Rightarrow> length w)"

function trimLeft :: "string list \<Rightarrow> string \<Rightarrow> string" where
  "trimLeft runes s = (if spaceLen runes s = 0 then s else trimLeft runes (drop (spaceLen runes s) s))"
  by pat_completeness auto
termination
proof (relation "measure (\<lambda>(runes, s). length s)")
  show "wf (measure (\<lambda>(runes, s). length s))" by simp
next
  fix runes :: "string list" and s :: string
  assume a: "spaceLen runes s \<noteq> 0"
  then obtain w where w: "find (\<lambda>w. w \<noteq> [] \<and> prefix w s) runes = Some w"
    by (auto simp: spaceLen_def split: option.splits)
  then have "w \<noteq> [] \<and> prefix w s"
    by (auto simp: find_Some_iff)
  then have "s \<noteq> []" by auto
  with a show "((runes, drop (spaceLen runes s) s), (runes, s)) \<in> measure (\<lambda>(runes, s). length s)"
    by simp
qed

text \<open>White space runes are removed at the head, then (read backwards) at the tail.\<close>

definition TrimSpace :: "string \<Rightarrow> string" where
  "TrimSpace s = rev (trimLeft (map rev spaceRunes) (rev (trimLeft spaceRunes s)))"

text \<open>
  \<^verbatim>\<open>strings.ToLower\<close> on a string of ASCII bytes, as the symbols of both tables are. Bytes
  from 128 on stay as they are, where Go lowers the runes they encode.
\<close>

definition ToLower :: "string \<Rightarrow> string" where
  "ToLower s = map (\<lambda>c. if 65 \<le> byte c \<and> byte c \<le> 90 then char_of (byte c + 32) else c) s"

fun Join :: "string list \<Rightarrow> string \<Rightarrow> string" where
  "Join [] sep = []"
| "Join [a] sep = a"
| "Join (a # b # elems) sep = a @ sep @ Join (b # elems) sep"

section \<open>The data of the program\<close>

definition binanceWSSURL :: string where
  "binanceWSSURL = ''wss://stream.binance.com:9443/ws''"

record TradeTelegramMessage =
  ChatID :: "64 word"
  AlertSymbol :: string
  AlertPrice :: float64
  Target :: float64

record TradeMessage =
  Event :: string
  EventTime :: "64 word"
  Symbol :: string
  TradeID :: "64 word"
  Price :: string
  Quantity :: string
  Timestamp :: "64 word"
  IsMarketMaker :: bool
  Ignore :: bool

definition chatIds :: "64 word list" where
  "chatIds = [- 1002314879454, 6753790669, 6717764833]"

text \<open>
  The target table: a Go map from symbol to targets. Each constant of the literal is the
  nearest float64. The first table is the one of \<^verbatim>\<open>main.go\<close> (variant A, with the
  Telegram alerts), the second the one of the variant that only logs (variant B).
\<close>

type_synonym targets = "string \<rightharpoonup> float64 list"

definition priceTargetsA :: targets where
  "priceTargetsA = map_of
     [(''LINKUSDT'', map round64 [217 / 10, 208 / 10, 1844 / 100, 25]),
      (''KSMUSDT'', map round64 [40, 37]),
      (''COTIUSDT'', map round64 [154 / 10, 144 / 10, 127 / 10]),
      (''SOLUSDT'', map round64 [210, 200, 190]),
      (''XLMUSDT'', map round64 [42 / 100, 36 / 100, 30 / 100]),
      (''ALGOUSDT'', map round64 [42 / 100, 36 / 100, 30 / 100]),
      (''PENDLEUSDT'', map round64 [59 / 10, 56 / 10, 54 / 10]),
      (''RNDRUSDT'', map round64 [9, 8, 72 / 10]),
      (''RAYUSDT'', map round64 [45 / 10, 4, 34 / 10]),
      (''JASMYUSDT'', map round64 [45 / 1000]),
      (''GALAUSDT'', map round64 [50 / 100, 46 / 100, 40 / 100]),
      (''AVAXUSDT'', map round64 [47, 43]),
      (''KDAUSDT'', map round64 [131 / 100, 115 / 100, 1]),
      (''ICPUSDT'', map round64 [135 / 10, 13, 123 / 10]),
      (''DIAUSDT'', map round64 [88 / 100, 84 / 100, 80 / 100]),
      (''SUPERUSDT'', map round64 [16 / 10, 15 / 10]),
      (''RSRUSDT'', map round64 [18 / 1000, 15 / 1000, 12 / 1000]),
      (''TAOUSDT'', map round64 [680, 655, 635]),
      (''ONDOUSDT'', map round64 [145 / 100, 128 / 100, 111 / 100]),
      (''ZILUSDT'', map round64 [285 / 1000, 253 / 1000, 2218 / 10000]),
      (''LITUSDT'', map round64 [11 / 10, 1, 8 / 10]),
      (''TIAUSDT'', map round64 [765 / 100, 68 / 10])]"

definition priceTargetsB :: targets where
  "priceTargetsB = map_of
     [(''ICPUSDT'', map round64 [136 / 10, 13, 125 / 10]),
      (''LINKUSDT'', map round64 [217 / 10, 208 / 10, 1844 / 100]),
      (''KSMUSDT'', map round64 [40, 37]),
      (''DIAUSDT'', map round64 [83 / 100, 73 / 100]),
      (''COTIUSDT'', map round64 [15, 144 / 10, 135 / 10]),
      (''SOLUSDT'', map round64 [210, 200, 190]),
      (''XLMUSDT'', map round64 [42 / 100, 36 / 100, 30 / 100]),
      (''KDAUSDT'', map round64 [1377 / 1000, 1275 / 1000, 115 / 100]),
      (''ALGOUSDT'', map round64 [42 / 100, 36 / 100, 30 / 100]),
      (''PENDLEUSDT'', map round64 [61 / 10, 59 / 10, 56 / 10]),
      (''RNDRUSDT'', map round64 [9, 8, 72 / 10]),
      (''AAVEUSDT'', map round64 [220, 200, 183]),
      (''RAYUSDT'', map round64 [45 / 10, 4, 34 / 10]),
      (''JASMYUSDT'', map round64 [45 / 100]),
      (''GALAUSDT'', map round64 [50 / 100, 46 / 100, 40 / 100]),
      (''AVAXUSDT'', map round64 [47, 43]),
      (''SUPERUSDT'', map round64 [16 / 10, 15 / 10]),
      (''RSRUSDT'', map round64 [18 / 1000, 15 / 1000, 12 / 1000])]"

section \<open>isWithinThreshold\<close>

definition isWithinThreshold :: "float64 \<Rightarrow> float64 \<Rightarrow> bool" where
  "isWithinThreshold price target =
     (let lowerBound = fmul target (round64 (99 / 100));
          upperBound = fmul target (round64 (101 / 100))
      in fge price lowerBound \<and> fle price upperBound)"

section \<open>Notifications (variant A)\<close>

text \<open>
  What the program does to the outside: a line of the log, or a message handed to the
  Telegram client. The text of a line is not kept, only which \<^verbatim>\<open>log.Printf\<close> wrote it
  and its arguments.
\<close>

datatype logline =
    LogBotError
  | LogReadError
  | LogConnClosed
  | LogDecodeError
  | LogPriceError parse_error
  | LogAlert string float64 float64
  | LogCurrentPrice string float64
  | LogSendError "64 word"

datatype event = Log logline | Send TradeTelegramMessage

text \<open>
  How a piece of the program ends: it goes on with what follows, it returns from the
  goroutine, or it panics.
\<close>

datatype control = Continue | Return | Panic

text \<open>
  The Telegram client is the library's. A client that \<^verbatim>\<open>tgbotapi.NewBotAPI\<close> created is
  modelled by what its \<^verbatim>\<open>Send\<close> answers: whether the delivery at time \<open>now\<close> of a message
  succeeds, which is not the program's to decide. The package variable \<^verbatim>\<open>bot\<close> is a
  pointer: \<open>Some\<close> of a created client, or \<open>None\<close> for nil.
\<close>

type_synonym telegram = "int \<Rightarrow> TradeTelegramMessage \<Rightarrow> bool"

text \<open>
  \<^verbatim>\<open>botTelegram\<close>: \<open>botAPI\<close> is what \<^verbatim>\<open>tgbotapi.NewBotAPI("")\<close> returned, nil together with
  an error when the library could not log in with the token (the token in the source is
  the empty string). The error is logged and nothing else is done about it: \<^verbatim>\<open>bot\<close> is
  assigned the result either way, nil included.
\<close>

definition botTelegram :: "telegram option \<Rightarrow> event list \<times> telegram option" where
  "botTelegram botAPI =
     ((case botAPI of None \<Rightarrow> [Log LogBotError] | Some client \<Rightarrow> []), botAPI)"

text \<open>
  \<^verbatim>\<open>sendMessage\<close>: \<^verbatim>\<open>bot.Send\<close> on a created client hands the message over and returns an
  error or not; the error is logged. On the nil client \<^verbatim>\<open>bot.Send\<close> dereferences nil
  before anything is sent, and the goroutine panics. The text of the message
  (\<^verbatim>\<open>fmt.Sprintf\<close> of symbol, price and target) is not kept, only the fields it is made of.
\<close>

definition sendMessage ::
  "telegram option \<Rightarrow> int \<Rightarrow> TradeTelegramMessage \<Rightarrow> event list \<times> control" where
  "sendMessage botClient now message =
     (case botClient of
        None \<Rightarrow> ([], Panic)
      | Some botSend \<Rightarrow>
          (Send message
             # (if botSend now message then [] else [Log (LogSendError (ChatID message))]),
           Continue))"

fun sendTelegramChatsTo ::
  "64 word list \<Rightarrow> telegram option \<Rightarrow> int \<Rightarrow> TradeMessage \<Rightarrow> float64 \<Rightarrow> float64
     \<Rightarrow> event list \<times> control" where
  "sendTelegramChatsTo [] botClient now trade currentPrice target = ([], Continue)"
| "sendTelegramChatsTo (chatID # rest) botClient now trade currentPrice target =
     (case sendMessage botClient now
             \<lparr>ChatID = chatID, AlertSymbol = Symbol trade, AlertPrice = currentPrice,
              Target = target\<rparr> of
        (out, Continue) \<Rightarrow>
          (let (out', c) = sendTelegramChatsTo rest botClient now trade currentPrice target
           in (out @ out', c))
      | (out, Return) \<Rightarrow> (out, Return)
      | (out, Panic) \<Rightarrow> (out, Panic))"

definition sendTelegramChats ::
  "telegram option \<Rightarrow> int \<Rightarrow> TradeMessage \<Rightarrow> float64 \<Rightarrow> float64 \<Rightarrow> event list \<times> control" where
  "sendTelegramChats botClient now trade currentPrice target =
     sendTelegramChatsTo chatIds botClient now trade currentPrice target"

section \<open>The alert state (variant A)\<close>

text \<open>
  Times are nanoseconds, as Go's \<^verbatim>\<open>time.Duration\<close>. A timer made by \<^verbatim>\<open>time.NewTimer\<close> has
  a channel, which holds a tick or not; a timer made by \<^verbatim>\<open>time.AfterFunc\<close> has no channel
  (its \<^verbatim>\<open>C\<close> is nil) and a callback that is still due at a deadline, or not any more.
\<close>

datatype timer = ChanTimer bool | FuncTimer "int option"

record alert_state =
  alertEmitted :: bool
  lastSymbol :: string
  alertTimer :: timer

definition minute :: int where
  "minute = 60000000000"

text \<open>
  The state \<^verbatim>\<open>main\<close> starts the read loop in: \<^verbatim>\<open>time.NewTimer(0)\<close> has fired and
  \<^verbatim>\<open><-alertTimer.C\<close> has taken its tick.
\<close>

definition initialState :: alert_state where
  "initialState = \<lparr>alertEmitted = False, lastSymbol = [], alertTimer = ChanTimer False\<rparr>"

text \<open>
  The callback of \<^verbatim>\<open>time.AfterFunc\<close>: once its deadline is reached it clears the flag. The
  runtime runs it on a goroutine of its own, with nothing to order its write against the
  loop; the model runs it when the next frame arrives, before the frame is looked at, and
  takes a turn of the loop to pass in no time.
\<close>

definition timerFires :: "int \<Rightarrow> alert_state \<Rightarrow> alert_state" where
  "timerFires now st =
     (case alertTimer st of
        FuncTimer (Some deadline) \<Rightarrow>
          if deadline \<le> now then st\<lparr>alertEmitted := False, alertTimer := FuncTimer None\<rparr>
          else st
      | _ \<Rightarrow> st)"

text \<open>The \<^verbatim>\<open>select\<close> at the end of an iteration: a receive from \<^verbatim>\<open>alertTimer.C\<close>, or nothing.\<close>

definition pollTimer :: "alert_state \<Rightarrow> alert_state" where
  "pollTimer st =
     (case alertTimer st of
        ChanTimer True \<Rightarrow> st\<lparr>alertEmitted := False, alertTimer := ChanTimer False\<rparr>
      | _ \<Rightarrow> st)"

section \<open>The read loops\<close>

text \<open>
  What one turn of the loop gets from \<^verbatim>\<open>conn.ReadMessage\<close> and \<^verbatim>\<open>json.Unmarshal\<close>, both
  library calls: the read failed (the flag is \<^verbatim>\<open>websocket.IsCloseError\<close> of the error),
  the payload did not decode into a \<^verbatim>\<open>TradeMessage\<close>, or it decoded into this one.
\<close>

datatype frame = ReadFailed bool | Undecodable string | Decoded TradeMessage

text \<open>
  The \<^verbatim>\<open>for _, target := range targets\<close> of variant A. The flag, the symbol and the timer
  are set before \<^verbatim>\<open>sendTelegramChats\<close> is called; the alert is logged after it returned.
\<close>

fun checkTargetsA ::
  "telegram option \<Rightarrow> int \<Rightarrow> TradeMessage \<Rightarrow> float64 \<Rightarrow> float64 list \<Rightarrow> alert_state
     \<Rightarrow> event list \<times> control \<times> alert_state" where
  "checkTargetsA botClient now trade currentPrice [] st = ([], Continue, st)"
| "checkTargetsA botClient now trade currentPrice (target # rest) st =
     (if isWithinThreshold currentPrice target
         \<and> (\<not> alertEmitted st \<or> lastSymbol st \<noteq> Symbol trade)
      then
        (let st' = st\<lparr>alertEmitted := True, lastSymbol := Symbol trade,
                       alertTimer := FuncTimer (Some (now + 1 * minute))\<rparr>
         in case sendTelegramChats botClient now trade currentPrice target of
              (out, Continue) \<Rightarrow>
                (let (out', c, st'') = checkTargetsA botClient now trade currentPrice rest st'
                 in (out @ [Log (LogAlert (Symbol trade) currentPrice target)] @ out', c, st''))
            | (out, Return) \<Rightarrow> (out, Return, st')
            | (out, Panic) \<Rightarrow> (out, Panic, st'))
      else checkTargetsA botClient now trade currentPrice rest st)"

text \<open>One turn of the loop of variant A, for the frame that arrives at time \<open>now\<close>.\<close>

definition iterationA ::
  "telegram option \<Rightarrow> targets \<Rightarrow> int \<Rightarrow> alert_state \<Rightarrow> frame
     \<Rightarrow> event list \<times> control \<times> alert_state" where
  "iterationA botClient priceTargets now st fr =
     (case fr of
        ReadFailed isClose \<Rightarrow>
          ([Log (if isClose then LogConnClosed else LogReadError)], Return, st)
      | Undecodable message \<Rightarrow> ([Log LogDecodeError], Panic, st)
      | Decoded trade \<Rightarrow>
          if TrimSpace (Event trade) = ''trade'' then
            (case ParseFloat (Price trade) of
               Inl err \<Rightarrow> ([Log (LogPriceError err)], Continue, st)
             | Inr currentPrice \<Rightarrow>
                 (case priceTargets (Symbol trade) of
                    Some targets \<Rightarrow>
                      (case checkTargetsA botClient now trade currentPrice targets st of
                         (out, Continue, st') \<Rightarrow> (out, Continue, pollTimer st')
                       | (out, Return, st') \<Rightarrow> (out, Return, st')
                       | (out, Panic, st') \<Rightarrow> (out, Panic, st'))
                  | None \<Rightarrow>
                      ([Log (LogCurrentPrice (Symbol trade) currentPrice)], Continue,
                       pollTimer st)))
          else ([], Continue, st))"

text \<open>
  How a loop stands after the frames it was given: still reading, returned (which closes
  \<^verbatim>\<open>done\<close> and ends \<^verbatim>\<open>main\<close>), or the goroutine panicked, which ends the process.
\<close>

datatype 's ending = Reading 's | Returned | Panicked

fun readLoopA ::
  "telegram option \<Rightarrow> targets \<Rightarrow> alert_state \<Rightarrow> (int \<times> frame) list
     \<Rightarrow> event list \<times> alert_state ending" where
  "readLoopA botClient priceTargets st [] = ([], Reading st)"
| "readLoopA botClient priceTargets st ((now, fr) # frames) =
     (case iterationA botClient priceTargets now (timerFires now st) fr of
        (out, Continue, st') \<Rightarrow>
          (let (out', e) = readLoopA botClient priceTargets st' frames in (out @ out', e))
      | (out, Return, st') \<Rightarrow> (out, Returned)
      | (out, Panic, st') \<Rightarrow> (out, Panicked))"

text \<open>Variant B: no alert state, no Telegram; a matching target is only logged.\<close>

fun checkTargetsB :: "TradeMessage \<Rightarrow> float64 \<Rightarrow> float64 list \<Rightarrow> event list" where
  "checkTargetsB trade currentPrice [] = []"
| "checkTargetsB trade currentPrice (target # rest) =
     (if isWithinThreshold currentPrice target
      then Log (LogAlert (Symbol trade) currentPrice target)
           # checkTargetsB trade currentPrice rest
      else checkTargetsB trade currentPrice rest)"

definition iterationB :: "targets \<Rightarrow> frame \<Rightarrow> event list \<times> control" where
  "iterationB priceTargets fr =
     (case fr of
        ReadFailed isClose \<Rightarrow> ([Log (if isClose then LogConnClosed else LogReadError)], Return)
      | Undecodable message \<Rightarrow> ([Log LogDecodeError], Panic)
      | Decoded trade \<Rightarrow>
          if TrimSpace (Event trade) = ''trade'' then
            (case ParseFloat (Price trade) of
               Inl err \<Rightarrow> ([Log (LogPriceError err)], Continue)
             | Inr currentPrice \<Rightarrow>
                 (case priceTargets (Symbol trade) of
                    Some targets \<Rightarrow> (checkTargetsB trade currentPrice targets, Continue)
                  | None \<Rightarrow> ([Log (LogCurrentPrice (Symbol trade) currentPrice)], Continue)))
          else ([], Continue))"

fun readLoopB :: "targets \<Rightarrow> frame list \<Rightarrow> event list \<times> unit ending" where
  "readLoopB priceTargets [] = ([], Reading ())"
| "readLoopB priceTargets (fr # frames) =
     (case iterationB priceTargets fr of
        (out, Continue) \<Rightarrow>
          (let (out', e) = readLoopB priceTargets frames in (out @ out', e))
      | (out, Return) \<Rightarrow> (out, Returned)
      | (out, Panic) \<Rightarrow> (out, Panicked))"

section \<open>The subscription\<close>

text \<open>
  The start of \<^verbatim>\<open>main\<close>, the same in both variants. \<open>keys\<close> is the order in which
  \<^verbatim>\<open>range priceTargets\<close> yields the symbols (Go does not fix it), \<open>requestID\<close> what
  \<^verbatim>\<open>uuid.New().String()\<close> returned, \<open>dialed\<close> and \<open>written\<close> whether \<^verbatim>\<open>Dial\<close> and
  \<^verbatim>\<open>WriteJSON\<close> succeeded. \<^verbatim>\<open>log.Fatalf\<close> ends the process.
\<close>

datatype json = JString string | JArray "string list"

datatype action = Dial string | WriteJSON "string \<rightharpoonup> json"

datatype startup = Fatal | Subscribed "string list"

definition assetsOf :: "string list \<Rightarrow> string list" where
  "assetsOf keys = map (\<lambda>asset. ToLower asset @ ''@trade'') keys"

definition subscribeMessage :: "string list \<Rightarrow> string \<Rightarrow> (string \<rightharpoonup> json)" where
  "subscribeMessage assets requestID =
     [''method'' \<mapsto> JString ''SUBSCRIBE'', ''params'' \<mapsto> JArray assets,
      ''id'' \<mapsto> JString requestID]"

definition subscribe :: "string list \<Rightarrow> string \<Rightarrow> bool \<Rightarrow> bool \<Rightarrow> action list \<times> startup" where
  "subscribe keys requestID dialed written =
     (let assets = assetsOf keys;
          streams = Join assets ''/'';
          url = binanceWSSURL @ ''/'' @ streams
      in
      if \<not> dialed then ([Dial url], Fatal)
      else if \<not> written then ([Dial url, WriteJSON (subscribeMessage assets requestID)], Fatal)
      else ([Dial url, WriteJSON (subscribeMessage assets requestID)], Subscribed assets))"

section \<open>Reading a trace\<close>

text \<open>
  The Telegram messages of a trace, the alerts it logged (symbol, price, target) and the
  chats it logged a failed delivery for, each in order.
\<close>

fun sends :: "event list \<Rightarrow> TradeTelegramMessage list" where
  "sends [] = []"
| "sends (Send m # evs) = m # sends evs"
| "sends (Log l # evs) = sends evs"

fun alerts :: "event list \<Rightarrow> (string \<times> float64 \<times> float64) list" where
  "alerts [] = []"
| "alerts (Log (LogAlert s p t) # evs) = (s, p, t) # alerts evs"
| "alerts (ev # evs) = alerts evs"

fun sendErrors :: "event list \<Rightarrow> 64 word list" where
  "sendErrors [] = []"
| "sendErrors (Log (LogSendError c) # evs) = c # sendErrors evs"
| "sendErrors (ev # evs) = sendErrors evs"

text \<open>
  A frame matches a configured target: it is a trade event whose price parses, whose
  symbol is in the table and whose price is within the band of one of the symbol's
  targets.
\<close>

definition matching :: "targets \<Rightarrow> frame \<Rightarrow> bool" where
  "matching priceTargets fr =
     (case fr of
        Decoded trade \<Rightarrow>
          TrimSpace (Event trade) = ''trade''
          \<and> (case ParseFloat (Price trade) of
                Inl err \<Rightarrow> False
              | Inr currentPrice \<Rightarrow>
                  (case priceTargets (Symbol trade) of
                     None \<Rightarrow> False
                   | Some targets \<Rightarrow> \<exists>target \<in> set targets. isWithinThreshold currentPrice target))
      | _ \<Rightarrow> False)"

text \<open>The prices an event carries.\<close>

fun eventPrices :: "event \<Rightarrow> float64 list" where
  "eventPrices (Send m) = [AlertPrice m]"
| "eventPrices (Log (LogAlert s p t)) = [p]"
| "eventPrices (Log (LogCurrentPrice s p)) = [p]"
| "eventPrices (Log l) = []"

text \<open>The messages one alert is sent as: one for each chat of \<open>chatIds\<close>, in order.\<close>

definition fanout :: "string \<times> float64 \<times> float64 \<Rightarrow> TradeTelegramMessage list" where
  "fanout a = (case a of (s, p, t) \<Rightarrow>
     map (\<lambda>c. \<lparr>ChatID = c, AlertSymbol = s, AlertPrice = p, Target = t\<rparr>) chatIds)"

text \<open>
  A trade event as the feed sends it for symbol \<open>s\<close> at price \<open>p\<close>:
  \<^verbatim>\<open>{"e":"trade","s":s,"p":p,"E":1,"t":1,"q":"1","T":1,"m":false,"M":false}\<close>, decoded.
\<close>

definition tick :: "string \<Rightarrow> string \<Rightarrow> TradeMessage" where
  "tick s p =
     \<lparr>Event = ''trade'', EventTime = 1, Symbol = s, TradeID = 1, Price = p, Quantity = ''1'',
      Timestamp = 1, IsMarketMaker = False, Ignore = False\<rparr>"

section \<open>Rounding to float64\<close>

lemma roundHalfEven_of_int: "roundHalfEven (of_int n) = n"
  by (simp add: roundHalfEven_def)

lemma roundHalfEven_near:
  assumes "\<bar>x - of_int n\<bar> < 1 / 2"
  shows "roundHalfEven x = n"
proof -
  have "of_int n - 1 \<le> x" "x < of_int n + 1" using assms by linarith+
  then have "of_int (n - 1) \<le> x" "x < of_int (n + 1)" by simp_all
  then have "n - 1 \<le> \<lfloor>x\<rfloor>" "\<lfloor>x\<rfloor> < n + 1"
    by (simp_all only: le_floor_iff floor_less_iff)
  then have "\<lfloor>x\<rfloor> = n \<or> \<lfloor>x\<rfloor> = n - 1" by linarith
  then show ?thesis
  proof
    assume "\<lfloor>x\<rfloor> = n"
    moreover from this have "of_int n \<le> x" by (metis of_int_floor_le)
    ultimately show ?thesis using assms by (auto simp: roundHalfEven_def Let_def)
  next
    assume a: "\<lfloor>x\<rfloor> = n - 1"
    then have "x < of_int n" by (metis floor_less_iff diff_add_cancel less_add_one
      add.commute floor_correct of_int_1 of_int_add)
    then show ?thesis using assms a by (auto simp: roundHalfEven_def Let_def)
  qed
qed

lemma roundHalfEven_bounds:
  "of_int (roundHalfEven x) \<le> x + 1 / 2" "x - 1 / 2 \<le> of_int (roundHalfEven x)"
  unfolding roundHalfEven_def Let_def by (auto; linarith)+

lemma roundHalfEven_mono:
  assumes "x \<le> y" shows "roundHalfEven x \<le> roundHalfEven y"
proof (cases "x = y")
  case True then show ?thesis by simp
next
  case False
  with assms have "x < y" by simp
  have "(of_int (roundHalfEven x) :: rat) \<le> x + 1 / 2" by (rule roundHalfEven_bounds)
  moreover have "y - 1 / 2 \<le> of_int (roundHalfEven y)" by (rule roundHalfEven_bounds)
  ultimately have "(of_int (roundHalfEven x) :: rat) < of_int (roundHalfEven y) + 1"
    using \<open>x < y\<close> by linarith
  then have "(of_int (roundHalfEven x) :: rat) < of_int (roundHalfEven y + 1)" by simp
  then have "roundHalfEven x < roundHalfEven y + 1" by (simp only: of_int_less_iff)
  then show ?thesis by simp
qed

lemma ilog2_bounds:
  assumes "0 < x"
  shows "2 powi (ilog2 x) \<le> x" and "x < 2 powi (ilog2 x + 1)"
proof -
  have "2 powi (ilog2 x) \<le> x \<and> x < 2 powi (ilog2 x + 1)"
  proof (cases "1 \<le> x")
    case True
    define n where "n = \<lfloor>x\<rfloor>"
    define b where "b = bitlen n"
    have n: "1 \<le> n" using True by (simp add: n_def le_floor_iff)
    then have bb: "(2::int) ^ nat (b - 1) \<le> n" "n < 2 ^ nat b"
      using bitlen_bounds[of n] by (simp_all add: b_def)
    have b1: "1 \<le> b" using n bitlen_eq_zero_iff[of n] bitlen_nonneg[of n] unfolding b_def by linarith
    have il: "ilog2 x = b - 1" using True by (simp add: ilog2_def n_def b_def)
    have "(of_int ((2::int) ^ nat (b - 1)) :: rat) \<le> of_int n" using bb(1) by (simp only: of_int_le_iff)
    also have "\<dots> \<le> x" by (simp add: n_def)
    finally have lo: "2 powi (b - 1) \<le> x" using b1 by (simp add: power_int_nonneg_exp)
    have "n + 1 \<le> 2 ^ nat b" using bb(2) by simp
    then have "(of_int (n + 1) :: rat) \<le> of_int ((2::int) ^ nat b)" by (simp only: of_int_le_iff)
    moreover have "x < of_int (n + 1)" using floor_correct[of x] by (simp add: n_def)
    ultimately have "x < of_int ((2::int) ^ nat b)" by linarith
    then have hi: "x < 2 powi b" using b1 by (simp add: power_int_nonneg_exp)
    from lo hi il show ?thesis by simp
  next
    case False
    define y where "y = 1 / x"
    define m where "m = \<lceil>y\<rceil>"
    define k where "k = bitlen (m - 1)"
    have y1: "1 < y" using False assms by (simp add: y_def)
    have m2: "2 \<le> m" using y1 unfolding m_def by (simp add: le_ceiling_iff) 
    then have bb: "(2::int) ^ nat (k - 1) \<le> m - 1" "m - 1 < 2 ^ nat k"
      using bitlen_bounds[of "m - 1"] by (simp_all add: k_def)
    have k1: "1 \<le> k" using m2 bitlen_eq_zero_iff[of "m - 1"] bitlen_nonneg[of "m - 1"]
      unfolding k_def by linarith
    have il: "ilog2 x = - k" using False by (simp add: ilog2_def y_def m_def k_def)
    have x: "x = 1 / y" by (simp add: y_def)
    have "m \<le> 2 ^ nat k" using bb(2) by simp
    then have "(of_int m :: rat) \<le> of_int ((2::int) ^ nat k)" by (simp only: of_int_le_iff)
    moreover have "y \<le> of_int m" by (simp add: m_def)
    moreover have "(of_int ((2::int) ^ nat k) :: rat) = 2 ^ nat k" by simp
    ultimately have "y \<le> 2 ^ nat k" by linarith
    then have "1 / 2 ^ nat k \<le> 1 / y" using y1 by (simp add: frac_le)
    then have lo: "2 powi (- k) \<le> x" using k1 by (simp add: x power_int_minus_divide power_int_nonneg_exp)
    have "(of_int ((2::int) ^ nat (k - 1)) :: rat) \<le> of_int (m - 1)" using bb(1) by (simp only: of_int_le_iff)
    moreover have "of_int (m - 1) < y" using ceiling_correct[of y] by (simp add: m_def)
    moreover have "(of_int ((2::int) ^ nat (k - 1)) :: rat) = 2 ^ nat (k - 1)" by simp
    ultimately have "2 ^ nat (k - 1) < y" by linarith
    then have "1 / y < 1 / 2 ^ nat (k - 1)" by (simp add: frac_less2)
    moreover have "2 powi (- k + 1) = 1 / (2::rat) ^ nat (k - 1)"
      using k1 power_int_minus_divide[of "2::rat" "k - 1"] by (simp add: power_int_nonneg_exp)
    ultimately have hi: "x < 2 powi (- k + 1)" by (simp add: x)
    from lo hi il show ?thesis by simp
  qed
  then show "2 powi (ilog2 x) \<le> x" and "x < 2 powi (ilog2 x + 1)" by simp_all
qed

lemma ilog2_unique:
  assumes "0 < x" "2 powi k \<le> x" "x < 2 powi (k + 1)"
  shows "ilog2 x = k"
proof -
  have "(2::rat) powi (ilog2 x) < 2 powi (k + 1)"
    using ilog2_bounds(1)[OF assms(1)] assms(3) by linarith
  then have "ilog2 x < k + 1"
    using power_int_increasing[of "k + 1" "ilog2 x" "2::rat"] by (cases "ilog2 x < k + 1") auto
  moreover have "(2::rat) powi k < 2 powi (ilog2 x + 1)"
    using ilog2_bounds(2)[OF assms(1)] assms(2) by linarith
  then have "k < ilog2 x + 1"
    using power_int_increasing[of "ilog2 x + 1" k "2::rat"] by (cases "k < ilog2 x + 1") auto
  ultimately show ?thesis by simp
qed

lemma ilog2_mono:
  assumes "0 < x" "x \<le> y"
  shows "ilog2 x \<le> ilog2 y"
proof -
  have "(2::rat) powi (ilog2 x) < 2 powi (ilog2 y + 1)"
    using ilog2_bounds(1)[OF assms(1)] ilog2_bounds(2)[of y] assms by linarith
  then have "ilog2 x < ilog2 y + 1"
    using power_int_increasing[of "ilog2 y + 1" "ilog2 x" "2::rat"]
    by (cases "ilog2 x < ilog2 y + 1") auto
  then show ?thesis by simp
qed

lemma roundPos_eval:
  assumes "0 < x" "2 powi k \<le> x" "x < 2 powi (k + 1)" "- 1022 \<le> k"
    and "\<bar>x / 2 powi (k - 52) - of_int m\<bar> < 1 / 2"
  shows "roundPos x = of_int m * 2 powi (k - 52)"
proof -
  have "ilog2 x = k" using assms(1-3) by (rule ilog2_unique)
  then have "max (ilog2 x) (- 1022) - 52 = k - 52" using assms(4) by simp
  then have q: "quantum x = 2 powi (k - 52)" by (simp only: quantum_def)
  show ?thesis by (simp only: roundPos_def q roundHalfEven_near[OF assms(5)])
qed

lemma round64_eval:
  assumes "2 powi k \<le> \<bar>x\<bar>" "\<bar>x\<bar> < 2 powi (k + 1)" "- 1022 \<le> k"
    and "\<bar>\<bar>x\<bar> / 2 powi (k - 52) - of_int m\<bar> < 1 / 2"
    and "of_int m * 2 powi (k - 52) < (2::rat) powi 1024"
  shows "round64 x = Finite (sgn x * (of_int m * 2 powi (k - 52)))"
proof -
  have "0 < (2::rat) powi k" by simp
  with assms(1) have pos: "0 < \<bar>x\<bar>" by linarith
  then have "roundPos \<bar>x\<bar> = of_int m * 2 powi (k - 52)"
    using assms by (intro roundPos_eval) auto
  then show ?thesis using pos assms(5) by (auto simp: round64_def Let_def sgn_if)
qed

lemma quantum_pos: "0 < quantum x"
  by (simp add: quantum_def)

lemma roundPos_nonneg: "0 \<le> x \<Longrightarrow> 0 \<le> roundPos x"
proof -
  assume "0 \<le> x"
  then have "0 \<le> x / quantum x" using quantum_pos[of x] by simp
  then have "roundHalfEven 0 \<le> roundHalfEven (x / quantum x)" by (rule roundHalfEven_mono)
  then have "0 \<le> roundHalfEven (x / quantum x)" using roundHalfEven_of_int[of 0] by simp
  then show ?thesis using quantum_pos[of x] by (simp add: roundPos_def)
qed

lemma roundPos_upper:
  assumes "0 < x"
  shows "roundPos x \<le> 2 powi (max (ilog2 x) (- 1022) + 1)"
proof -
  define e where "e = max (ilog2 x) (- 1022)"
  have q: "quantum x = 2 powi (e - 52)" by (simp add: quantum_def e_def)
  have "x < 2 powi (ilog2 x + 1)" using assms by (rule ilog2_bounds)
  also have "\<dots> \<le> 2 powi (e + 1)" by (intro power_int_increasing) (simp_all add: e_def)
  finally have "x / 2 powi (e - 52) \<le> 2 powi (e + 1) / 2 powi (e - 52)"
    by (simp add: divide_right_mono)
  also have "2 powi (e + 1) / 2 powi (e - 52) = (2::rat) powi ((e + 1) - (e - 52))"
    by (subst power_int_diff) simp_all
  also have "\<dots> = of_int (2 ^ 53)" by simp
  finally have "roundHalfEven (x / 2 powi (e - 52)) \<le> roundHalfEven (of_int (2 ^ 53))"
    by (rule roundHalfEven_mono)
  then have "roundHalfEven (x / 2 powi (e - 52)) \<le> 2 ^ 53" by (simp only: roundHalfEven_of_int)
  then have "(of_int (roundHalfEven (x / 2 powi (e - 52))) :: rat) \<le> of_int (2 ^ 53)"
    by (simp only: of_int_le_iff)
  then have "roundPos x \<le> of_int (2 ^ 53) * 2 powi (e - 52)"
    unfolding roundPos_def q by (intro mult_right_mono) simp_all
  also have "of_int (2 ^ 53) * 2 powi (e - 52) = (2::rat) powi 53 * 2 powi (e - 52)" by simp
  also have "\<dots> = 2 powi (53 + (e - 52))" by (subst power_int_add) simp_all
  finally show ?thesis by (simp add: e_def add.commute)
qed

lemma roundPos_lower:
  assumes "0 < x" "- 1022 \<le> ilog2 x"
  shows "2 powi (ilog2 x) \<le> roundPos x"
proof -
  define e where "e = ilog2 x"
  have q: "quantum x = 2 powi (e - 52)" using assms(2) by (simp add: quantum_def e_def)
  have "(2::rat) powi 52 = 2 powi (e - (e - 52))" by simp
  also have "\<dots> = 2 powi e / 2 powi (e - 52)" by (subst power_int_diff) simp_all
  also have "\<dots> \<le> x / 2 powi (e - 52)"
    using ilog2_bounds(1)[OF assms(1)] by (simp add: divide_right_mono e_def)
  finally have "of_int (2 ^ 52) \<le> x / 2 powi (e - 52)" by simp
  then have "roundHalfEven (of_int (2 ^ 52)) \<le> roundHalfEven (x / 2 powi (e - 52))"
    by (rule roundHalfEven_mono)
  then have "2 ^ 52 \<le> roundHalfEven (x / 2 powi (e - 52))" by (simp only: roundHalfEven_of_int)
  then have "(of_int (2 ^ 52) :: rat) \<le> of_int (roundHalfEven (x / 2 powi (e - 52)))"
    by (simp only: of_int_le_iff)
  then have "of_int (2 ^ 52) * 2 powi (e - 52) \<le> roundPos x"
    unfolding roundPos_def q by (intro mult_right_mono) simp_all
  moreover have "of_int (2 ^ 52) * 2 powi (e - 52) = (2::rat) powi 52 * 2 powi (e - 52)" by simp
  moreover have "(2::rat) powi 52 * 2 powi (e - 52) = 2 powi (52 + (e - 52))"
    by (subst power_int_add) simp_all
  ultimately show ?thesis by (simp add: e_def)
qed

lemma roundPos_mono:
  assumes "0 < x" "x \<le> y"
  shows "roundPos x \<le> roundPos y"
proof -
  define ex where "ex = max (ilog2 x) (- 1022)"
  define ey where "ey = max (ilog2 y) (- 1022)"
  have y: "0 < y" using assms by simp
  have le: "ex \<le> ey" using ilog2_mono[OF assms] by (simp add: ex_def ey_def)
  show ?thesis
  proof (cases "ex = ey")
    case True
    then have q: "quantum y = quantum x" by (simp add: quantum_def ex_def ey_def)
    have "x / quantum x \<le> y / quantum x" using assms(2) quantum_pos[of x]
      by (simp add: divide_right_mono)
    then have "roundHalfEven (x / quantum x) \<le> roundHalfEven (y / quantum x)"
      by (rule roundHalfEven_mono)
    then have "(of_int (roundHalfEven (x / quantum x)) :: rat) \<le> of_int (roundHalfEven (y / quantum x))"
      by (simp only: of_int_le_iff)
    then show ?thesis unfolding roundPos_def q using quantum_pos[of x]
      by (intro mult_right_mono) simp_all
  next
    case False
    with le have lt: "ex + 1 \<le> ey" by simp
    then have ey: "ey = ilog2 y" "- 1022 \<le> ilog2 y" by (simp_all add: ex_def ey_def)
    have "roundPos x \<le> 2 powi (ex + 1)" using roundPos_upper[OF assms(1)] by (simp add: ex_def)
    also have "\<dots> \<le> 2 powi ey" using lt by (intro power_int_increasing) simp_all
    also have "\<dots> \<le> roundPos y" using roundPos_lower[OF y ey(2)] by (simp add: ey(1))
    finally show ?thesis .
  qed
qed

lemma fle_round64:
  assumes "x \<le> y"
  shows "fle (round64 x) (round64 y)"
proof -
  consider "0 < x" | "x \<le> 0" "0 \<le> y" | "y < 0" using assms by linarith
  then show ?thesis
  proof cases
    case 1
    then have "roundPos \<bar>x\<bar> \<le> roundPos \<bar>y\<bar>" using assms roundPos_mono[of x y] by simp
    then show ?thesis using 1 assms by (auto simp: round64_def Let_def)
  next
    case 2
    have "0 \<le> roundPos \<bar>x\<bar>" "0 \<le> roundPos \<bar>y\<bar>" by (simp_all add: roundPos_nonneg)
    then show ?thesis using 2 by (auto simp: round64_def Let_def)
  next
    case 3
    then have "roundPos \<bar>y\<bar> \<le> roundPos \<bar>x\<bar>" using assms roundPos_mono[of "- y" "- x"] by simp
    then show ?thesis using 3 assms by (auto simp: round64_def Let_def)
  qed
qed

lemma round64_not_NaN: "round64 x \<noteq> NaN"
  by (simp add: round64_def Let_def)

lemma fle_refl: "a \<noteq> NaN \<Longrightarrow> fle a a"
  by (cases a) simp_all

section \<open>The loops over targets and chats\<close>

lemma sends_append: "sends (xs @ ys) = sends xs @ sends ys"
  by (induction xs rule: sends.induct) simp_all

lemma alerts_append: "alerts (xs @ ys) = alerts xs @ alerts ys"
  by (induction xs rule: alerts.induct) simp_all

lemma sendErrors_append: "sendErrors (xs @ ys) = sendErrors xs @ sendErrors ys"
  by (induction xs rule: sendErrors.induct) simp_all

text \<open>With the nil client the first chat already panics; with a created one every chat is tried.\<close>

lemma sendTelegramChatsTo_nil:
  "sendTelegramChatsTo cs None now trade p t = ([], if cs = [] then Continue else Panic)"
  by (cases cs) (simp_all add: sendMessage_def)

lemma sendTelegramChats_nil: "sendTelegramChats None now trade p t = ([], Panic)"
  by (simp add: sendTelegramChats_def sendTelegramChatsTo_nil chatIds_def)

lemma snd_sendTelegramChatsTo:
  "snd (sendTelegramChatsTo cs (Some botSend) now trade p t) = Continue"
  by (induction cs) (simp_all add: sendMessage_def split_beta)

lemma sends_sendTelegramChatsTo:
  "sends (fst (sendTelegramChatsTo cs (Some botSend) now trade p t)) =
     map (\<lambda>c. \<lparr>ChatID = c, AlertSymbol = Symbol trade, AlertPrice = p, Target = t\<rparr>) cs"
  by (induction cs) (simp_all add: sendMessage_def sends_append split_beta)

lemma alerts_sendTelegramChatsTo:
  "alerts (fst (sendTelegramChatsTo cs botClient now trade p t)) = []"
proof (cases botClient)
  case None
  then show ?thesis by (simp add: sendTelegramChatsTo_nil)
next
  case (Some botSend)
  show ?thesis
    unfolding Some by (induction cs) (simp_all add: sendMessage_def alerts_append split_beta)
qed

lemma sendErrors_sendTelegramChatsTo:
  "sendErrors (fst (sendTelegramChatsTo cs (Some botSend) now trade p t)) =
     filter (\<lambda>c. \<not> botSend now \<lparr>ChatID = c, AlertSymbol = Symbol trade, AlertPrice = p, Target = t\<rparr>) cs"
  by (induction cs) (simp_all add: sendMessage_def sendErrors_append split_beta)

lemma snd_sendTelegramChats:
  "snd (sendTelegramChats (Some botSend) now trade p t) = Continue"
  by (simp add: sendTelegramChats_def snd_sendTelegramChatsTo)

lemma case_sendTelegramChats:
  "(case sendTelegramChats (Some botSend) now trade p t of (out, c) \<Rightarrow> f out c)
     = f (fst (sendTelegramChats (Some botSend) now trade p t)) Continue"
  by (simp add: split_beta snd_sendTelegramChats)

lemma checkTargetsA_closed:
  "alertEmitted st \<Longrightarrow> lastSymbol st = Symbol trade \<Longrightarrow>
   checkTargetsA botClient now trade p targets st = ([], Continue, st)"
  by (induction targets) simp_all

lemma checkTargetsA_open:
  "\<not> alertEmitted st \<or> lastSymbol st \<noteq> Symbol trade \<Longrightarrow>
   checkTargetsA botClient now trade p targets st =
     (case filter (isWithinThreshold p) targets of
        [] \<Rightarrow> ([], Continue, st)
      | t # ts \<Rightarrow>
          (case sendTelegramChats botClient now trade p t of
             (out, Continue) \<Rightarrow>
               (out @ [Log (LogAlert (Symbol trade) p t)], Continue,
                st\<lparr>alertEmitted := True, lastSymbol := Symbol trade,
                   alertTimer := FuncTimer (Some (now + minute))\<rparr>)
           | (out, Return) \<Rightarrow>
               (out, Return,
                st\<lparr>alertEmitted := True, lastSymbol := Symbol trade,
                   alertTimer := FuncTimer (Some (now + minute))\<rparr>)
           | (out, Panic) \<Rightarrow>
               (out, Panic,
                st\<lparr>alertEmitted := True, lastSymbol := Symbol trade,
                   alertTimer := FuncTimer (Some (now + minute))\<rparr>)))"
  by (induction targets) (simp_all add: checkTargetsA_closed split: prod.splits control.splits)

text \<open>What the loop over the targets of variant A comes to.\<close>

lemma checkTargetsA_cases:
  "checkTargetsA botClient now trade p targets st =
     (if alertEmitted st \<and> lastSymbol st = Symbol trade then ([], Continue, st)
      else case filter (isWithinThreshold p) targets of
        [] \<Rightarrow> ([], Continue, st)
      | t # ts \<Rightarrow>
          (case sendTelegramChats botClient now trade p t of
             (out, Continue) \<Rightarrow>
               (out @ [Log (LogAlert (Symbol trade) p t)], Continue,
                st\<lparr>alertEmitted := True, lastSymbol := Symbol trade,
                   alertTimer := FuncTimer (Some (now + minute))\<rparr>)
           | (out, Return) \<Rightarrow>
               (out, Return,
                st\<lparr>alertEmitted := True, lastSymbol := Symbol trade,
                   alertTimer := FuncTimer (Some (now + minute))\<rparr>)
           | (out, Panic) \<Rightarrow>
               (out, Panic,
                st\<lparr>alertEmitted := True, lastSymbol := Symbol trade,
                   alertTimer := FuncTimer (Some (now + minute))\<rparr>)))"
  using checkTargetsA_closed[of st trade botClient now p targets]
    checkTargetsA_open[of st trade botClient now p targets]
  by auto

lemma checkTargetsA_created:
  "checkTargetsA (Some botSend) now trade p targets st =
     (if alertEmitted st \<and> lastSymbol st = Symbol trade then ([], Continue, st)
      else case filter (isWithinThreshold p) targets of
        [] \<Rightarrow> ([], Continue, st)
      | t # ts \<Rightarrow>
          (fst (sendTelegramChats (Some botSend) now trade p t)
             @ [Log (LogAlert (Symbol trade) p t)],
           Continue,
           st\<lparr>alertEmitted := True, lastSymbol := Symbol trade,
              alertTimer := FuncTimer (Some (now + minute))\<rparr>))"
  by (simp add: checkTargetsA_cases case_sendTelegramChats split: list.splits)

lemma checkTargetsA_nil:
  "checkTargetsA None now trade p targets st =
     (if alertEmitted st \<and> lastSymbol st = Symbol trade then ([], Continue, st)
      else case filter (isWithinThreshold p) targets of
        [] \<Rightarrow> ([], Continue, st)
      | t # ts \<Rightarrow>
          ([], Panic,
           st\<lparr>alertEmitted := True, lastSymbol := Symbol trade,
              alertTimer := FuncTimer (Some (now + minute))\<rparr>))"
  by (simp add: checkTargetsA_cases sendTelegramChats_nil split: list.splits)

lemma checkTargetsB_filter:
  "checkTargetsB trade p targets =
   map (\<lambda>t. Log (LogAlert (Symbol trade) p t)) (filter (isWithinThreshold p) targets)"
  by (induction targets) simp_all

section \<open>Evaluated instances\<close>

text \<open>
  Roundings, parses and table entries at concrete values, each derived from the
  definitions: the constants 0.99 and 1.01, the targets of SOLUSDT and AVAXUSDT, and the
  prices of the scenarios below.
\<close>

lemma round64_099: "round64 (99 / 100) = Finite (4458563631096791 / 4503599627370496)"
  using round64_eval [of "- 1" "99 / 100" 8917127262193582] by simp

lemma round64_101: "round64 (101 / 100) = Finite (4548635623644201 / 4503599627370496)"
  using round64_eval [of "0" "101 / 100" 4548635623644201] by simp

lemma round64_210: "round64 (210) = Finite (210)"
  using round64_eval [of "7" "210" 7388718138654720] by simp

lemma round64_200: "round64 (200) = Finite (200)"
  using round64_eval [of "7" "200" 7036874417766400] by simp

lemma round64_190: "round64 (190) = Finite (190)"
  using round64_eval [of "7" "190" 6685030696878080] by simp

lemma round64_47: "round64 (47) = Finite (47)"
  using round64_eval [of "5" "47" 6614661952700416] by simp

lemma round64_43: "round64 (43) = Finite (43)"
  using round64_eval [of "5" "43" 6051711999279104] by simp

lemma round64_2089: "round64 (2089 / 10) = Finite (7350015329357005 / 35184372088832)"
  using round64_eval [of "7" "2089 / 10" 7350015329357005] by simp

lemma round64_20500: "round64 (20500 / 100) = Finite (205)"
  using round64_eval [of "7" "20500 / 100" 7212796278210560] by simp

lemma lower_210: "round64 (468149181265163055 / 2251799813685248) = Finite (7314830957268173 / 35184372088832)"
  using round64_eval [of "7" "468149181265163055 / 2251799813685248" 7314830957268173] by simp

lemma upper_210: "round64 (477606740482641105 / 2251799813685248) = Finite (7462605320041267 / 35184372088832)"
  using round64_eval [of "7" "477606740482641105 / 2251799813685248" 7462605320041267] by simp

lemma lower_200: "round64 (111464090777419775 / 562949953421312) = Finite (198)"
  using round64_eval [of "7" "111464090777419775 / 562949953421312" 6966505673588736] by simp

lemma upper_200: "round64 (113715890591105025 / 562949953421312) = Finite (202)"
  using round64_eval [of "7" "113715890591105025 / 562949953421312" 7107243161944064] by simp

lemma lower_190: "round64 (423563544954195145 / 2251799813685248) = Finite (6618180389909299 / 35184372088832)"
  using round64_eval [of "7" "423563544954195145 / 2251799813685248" 6618180389909299] by simp

lemma upper_190: "round64 (432120384246199095 / 2251799813685248) = Finite (6751881003846861 / 35184372088832)"
  using round64_eval [of "7" "432120384246199095 / 2251799813685248" 6751881003846861] by simp

lemma lower_47: "round64 (209552490661549177 / 4503599627370496) = Finite (1637128833293353 / 35184372088832)"
  using round64_eval [of "5" "209552490661549177 / 4503599627370496" 6548515333173412] by simp

lemma upper_47: "round64 (213785874311277447 / 4503599627370496) = Finite (1670202143056855 / 35184372088832)"
  using round64_eval [of "5" "213785874311277447 / 4503599627370496" 6680808572227420] by simp

lemma lower_43: "round64 (191718236137162013 / 4503599627370496) = Finite (5991194879286313 / 140737488355328)"
  using round64_eval [of "5" "191718236137162013 / 4503599627370496" 5991194879286313] by simp

lemma upper_43: "round64 (195591331816700643 / 4503599627370496) = Finite (6112229119271895 / 140737488355328)"
  using round64_eval [of "5" "195591331816700643 / 4503599627370496" 6112229119271895] by simp

lemma lower_100: "round64 (111464090777419775 / 1125899906842624) = Finite (99)"
  using round64_eval [of "6" "111464090777419775 / 1125899906842624" 6966505673588736] by simp

lemma upper_100: "round64 (113715890591105025 / 1125899906842624) = Finite (101)"
  using round64_eval [of "6" "113715890591105025 / 1125899906842624" 7107243161944064] by simp

lemma lower_201_2: "round64 (896171289850454991 / 9007199254740992) = Finite (875167275244585 / 8796093022208)"
  using round64_eval [of "6" "896171289850454991 / 9007199254740992" 7001338201956680] by simp

lemma upper_201_2: "round64 (914275760352484401 / 9007199254740992) = Finite (892847422219223 / 8796093022208)"
  using round64_eval [of "6" "914275760352484401 / 9007199254740992" 7142779377753784] by simp

lemma lower_50: "round64 (111464090777419775 / 2251799813685248) = Finite (99 / 2)"
  using round64_eval [of "5" "111464090777419775 / 2251799813685248" 6966505673588736] by simp

lemma upper_50: "round64 (113715890591105025 / 2251799813685248) = Finite (101 / 2)"
  using round64_eval [of "5" "113715890591105025 / 2251799813685248" 7107243161944064] by simp

lemma isWithinThreshold_Finite:
  "isWithinThreshold (Finite p) (Finite t) \<longleftrightarrow>
     fle (round64 (t * (4458563631096791 / 4503599627370496))) (Finite p)
     \<and> fle (Finite p) (round64 (t * (4548635623644201 / 4503599627370496)))"
  by (simp add: isWithinThreshold_def fge_def round64_099 round64_101)

lemma within_2089:
  "isWithinThreshold (Finite (7350015329357005 / 35184372088832)) (Finite 210)"
  "\<not> isWithinThreshold (Finite (7350015329357005 / 35184372088832)) (Finite 200)"
  "\<not> isWithinThreshold (Finite (7350015329357005 / 35184372088832)) (Finite 190)"
  by (simp_all add: isWithinThreshold_Finite lower_210 upper_210 lower_200 upper_200 lower_190 upper_190)

lemma within_205:
  "\<not> isWithinThreshold (Finite 205) (Finite 210)"
  "\<not> isWithinThreshold (Finite 205) (Finite 200)"
  "\<not> isWithinThreshold (Finite 205) (Finite 190)"
  by (simp_all add: isWithinThreshold_Finite lower_210 upper_210 lower_200 upper_200 lower_190 upper_190)

lemma within_47:
  "isWithinThreshold (Finite 47) (Finite 47)"
  "\<not> isWithinThreshold (Finite 47) (Finite 43)"
  by (simp_all add: isWithinThreshold_Finite lower_47 upper_47 lower_43 upper_43)

lemma within_10025:
  "isWithinThreshold (Finite (401 / 4)) (Finite 100)"
  "isWithinThreshold (Finite (401 / 4)) (Finite (201 / 2))"
  "\<not> isWithinThreshold (Finite (401 / 4)) (Finite 50)"
  by (simp_all add: isWithinThreshold_Finite lower_100 upper_100 lower_201_2 upper_201_2 lower_50 upper_50)

lemma special_2089: "special ''208.9'' = None" by code_simp
lemma readFloat_2089: "readFloat ''208.9'' = Some (False, 10, 2089, - 1, [])" by code_simp
lemma ParseFloat_2089: "ParseFloat ''208.9'' = Inr (Finite (7350015329357005 / 35184372088832))"
  by (simp add: ParseFloat_def special_2089 readFloat_2089 round64_2089)

lemma special_205: "special ''205.00'' = None" by code_simp
lemma readFloat_205: "readFloat ''205.00'' = Some (False, 10, 20500, - 2, [])" by code_simp
lemma ParseFloat_205: "ParseFloat ''205.00'' = Inr (Finite 205)"
  using round64_20500 by (simp add: ParseFloat_def special_205 readFloat_205)

lemma ParseFloat_abc: "ParseFloat ''abc'' = Inl ErrSyntax" by code_simp
lemma ParseFloat_minus1: "ParseFloat ''-1'' = Inr (Finite (- 1))" 
proof -
  have "special ''-1'' = None" by code_simp
  moreover have "readFloat ''-1'' = Some (True, 10, 1, 0, [])" by code_simp
  moreover have "round64 (- 1) = Finite (- 1)" using round64_eval [of 0 "- 1" "2 ^ 52"] by simp
  ultimately show ?thesis by (simp add: ParseFloat_def)
qed
lemma ParseFloat_NaN: "ParseFloat ''NaN'' = Inr NaN" by code_simp
lemma ParseFloat_Inf: "ParseFloat ''Inf'' = Inr PInf" by code_simp

lemma TrimSpace_trade: "TrimSpace ''trade'' = ''trade''" by code_simp

lemma priceTargetsA_SOLUSDT: "priceTargetsA ''SOLUSDT'' = Some [Finite 210, Finite 200, Finite 190]"
  by (simp add: priceTargetsA_def round64_210 round64_200 round64_190)
lemma priceTargetsB_SOLUSDT: "priceTargetsB ''SOLUSDT'' = Some [Finite 210, Finite 200, Finite 190]"
  by (simp add: priceTargetsB_def round64_210 round64_200 round64_190)
lemma priceTargetsA_DOGEUSDT: "priceTargetsA ''DOGEUSDT'' = None"
  by (simp add: priceTargetsA_def)
lemma priceTargetsB_DOGEUSDT: "priceTargetsB ''DOGEUSDT'' = None"
  by (simp add: priceTargetsB_def)

section \<open>One turn of a loop\<close>

lemma pollTimer_id: "alertTimer st \<noteq> ChanTimer True \<Longrightarrow> pollTimer st = st"
  by (cases "alertTimer st") (auto simp: pollTimer_def split: bool.splits)

lemma pollTimer_fields [simp]: "lastSymbol (pollTimer st) = lastSymbol st"
  by (auto simp: pollTimer_def split: timer.splits bool.splits)

lemma pollTimer_timer: "alertTimer (pollTimer st) \<noteq> ChanTimer True"
  by (auto simp: pollTimer_def split: timer.splits bool.splits)

lemma Symbol_tick [simp]: "Symbol (tick s p) = s" "Price (tick s p) = p" "Event (tick s p) = ''trade''"
  by (simp_all add: tick_def)

lemma timerFires_timer: "alertTimer st \<noteq> ChanTimer True \<Longrightarrow> alertTimer (timerFires now st) \<noteq> ChanTimer True"
  by (auto simp: timerFires_def split: timer.splits option.splits)

lemma timerFires_initial [simp]: "timerFires now initialState = initialState"
  by (simp add: timerFires_def initialState_def)

lemma initialState_fields [simp]:
  "alertEmitted initialState = False" "lastSymbol initialState = []"
  "alertTimer initialState = ChanTimer False"
  by (simp_all add: initialState_def)

lemma timerFires_fields:
  "lastSymbol (timerFires now st) = lastSymbol st"
  "alertEmitted (timerFires now st) \<Longrightarrow> alertEmitted st"
  by (auto simp: timerFires_def split: timer.splits option.splits if_splits)

lemma pollTimer_flag: "alertEmitted (pollTimer st) \<Longrightarrow> alertEmitted st"
  by (auto simp: pollTimer_def split: timer.splits bool.splits)

text \<open>The events of a turn on a decoded frame are those of the loop over the targets.\<close>

lemma fst_iterationA_Decoded:
  "fst (iterationA botClient tbl now st (Decoded trade)) =
     (if TrimSpace (Event trade) = ''trade'' then
        (case ParseFloat (Price trade) of
           Inl err \<Rightarrow> [Log (LogPriceError err)]
         | Inr currentPrice \<Rightarrow>
             (case tbl (Symbol trade) of
                Some targets \<Rightarrow> fst (checkTargetsA botClient now trade currentPrice targets st)
              | None \<Rightarrow> [Log (LogCurrentPrice (Symbol trade) currentPrice)]))
      else [])"
  by (simp add: iterationA_def split: sum.splits option.splits prod.splits control.splits)

text \<open>With a created client the loop over the targets never panics, and the turn goes on.\<close>

lemma iterationA_created:
  "iterationA (Some botSend) tbl now st (Decoded trade) =
     (if TrimSpace (Event trade) = ''trade'' then
        (case ParseFloat (Price trade) of
           Inl err \<Rightarrow> ([Log (LogPriceError err)], Continue, st)
         | Inr currentPrice \<Rightarrow>
             (case tbl (Symbol trade) of
                Some targets \<Rightarrow>
                  (fst (checkTargetsA (Some botSend) now trade currentPrice targets st), Continue,
                   pollTimer (snd (snd (checkTargetsA (Some botSend) now trade currentPrice targets st))))
              | None \<Rightarrow>
                  ([Log (LogCurrentPrice (Symbol trade) currentPrice)], Continue, pollTimer st)))
      else ([], Continue, st))"
proof -
  have "fst (snd (checkTargetsA (Some botSend) now trade p targets st)) = Continue" for p targets
    by (simp add: checkTargetsA_created split: list.splits)
  then have "checkTargetsA (Some botSend) now trade p targets st
      = (fst (checkTargetsA (Some botSend) now trade p targets st), Continue,
         snd (snd (checkTargetsA (Some botSend) now trade p targets st)))" for p targets
    by (metis prod.collapse)
  then have "(case checkTargetsA (Some botSend) now trade p targets st of
                (out, Continue, st') \<Rightarrow> (out, Continue, pollTimer st')
              | (out, Return, st') \<Rightarrow> (out, Return, st')
              | (out, Panic, st') \<Rightarrow> (out, Panic, st'))
      = (fst (checkTargetsA (Some botSend) now trade p targets st), Continue,
         pollTimer (snd (snd (checkTargetsA (Some botSend) now trade p targets st))))" for p targets
    by (metis (mono_tags, lifting) case_prod_conv control.simps(7))
  then show ?thesis
    by (simp add: iterationA_def split: sum.splits option.splits)
qed

lemma iterationB_tick:
  "iterationB tbl (Decoded (tick s p)) =
     (case ParseFloat p of
        Inl err \<Rightarrow> ([Log (LogPriceError err)], Continue)
      | Inr currentPrice \<Rightarrow>
          (case tbl s of
             Some targets \<Rightarrow> (checkTargetsB (tick s p) currentPrice targets, Continue)
           | None \<Rightarrow> ([Log (LogCurrentPrice s currentPrice)], Continue)))"
  by (simp add: iterationB_def TrimSpace_trade split: sum.splits option.splits)

lemma iterationA_tick:
  "iterationA (Some botSend) tbl now st (Decoded (tick s p)) =
     (case ParseFloat p of
        Inl err \<Rightarrow> ([Log (LogPriceError err)], Continue, st)
      | Inr currentPrice \<Rightarrow>
          (case tbl s of
             Some targets \<Rightarrow>
               (fst (checkTargetsA (Some botSend) now (tick s p) currentPrice targets st), Continue,
                pollTimer (snd (snd (checkTargetsA (Some botSend) now (tick s p) currentPrice targets st))))
           | None \<Rightarrow> ([Log (LogCurrentPrice s currentPrice)], Continue, pollTimer st)))"
  by (simp add: iterationA_created TrimSpace_trade split: sum.splits option.splits)

lemma iterationA_absent:
  "tbl s = None \<Longrightarrow> ParseFloat p = Inr q \<Longrightarrow>
   iterationA botClient tbl now st (Decoded (tick s p))
     = ([Log (LogCurrentPrice s q)], Continue, pollTimer st)"
  by (simp add: iterationA_def TrimSpace_trade)

lemma readLoopB_SOL_2089:
  "readLoopB priceTargetsB [Decoded (tick ''SOLUSDT'' ''208.9'')] =
     ([Log (LogAlert ''SOLUSDT'' (Finite (7350015329357005 / 35184372088832)) (Finite 210))],
      Reading ())"
  by (simp add: iterationB_tick ParseFloat_2089 priceTargetsB_SOLUSDT checkTargetsB_filter within_2089)

lemma sendTelegramChats_ok:
  "sendTelegramChats (Some (\<lambda>now m. True)) now trade p t =
     (map (\<lambda>c. Send \<lparr>ChatID = c, AlertSymbol = Symbol trade, AlertPrice = p, Target = t\<rparr>) chatIds,
      Continue)"
proof -
  have "sendTelegramChatsTo cs (Some (\<lambda>now m. True)) now trade p t =
     (map (\<lambda>c. Send \<lparr>ChatID = c, AlertSymbol = Symbol trade, AlertPrice = p, Target = t\<rparr>) cs,
      Continue)" for cs
    by (induction cs) (simp_all add: sendMessage_def)
  then show ?thesis by (simp add: sendTelegramChats_def)
qed

lemma iterationA_SOL_2089:
  "\<not> alertEmitted st \<or> lastSymbol st \<noteq> ''SOLUSDT'' \<Longrightarrow> alertTimer st \<noteq> ChanTimer True \<Longrightarrow>
   iterationA (Some botSend) priceTargetsA now st (Decoded (tick ''SOLUSDT'' ''208.9'')) =
     (fst (sendTelegramChats (Some botSend) now (tick ''SOLUSDT'' ''208.9'')
          (Finite (7350015329357005 / 35184372088832)) (Finite 210))
        @ [Log (LogAlert ''SOLUSDT'' (Finite (7350015329357005 / 35184372088832)) (Finite 210))],
      Continue,
      st\<lparr>alertEmitted := True, lastSymbol := ''SOLUSDT'',
         alertTimer := FuncTimer (Some (now + minute))\<rparr>)"
  by (simp add: iterationA_tick ParseFloat_2089 priceTargetsA_SOLUSDT checkTargetsA_created within_2089
      pollTimer_id del: checkTargetsA.simps)

text \<open>With the nil client the turn of a matching tick panics before anything is sent.\<close>

lemma iterationA_SOL_2089_nil:
  "\<not> alertEmitted st \<or> lastSymbol st \<noteq> ''SOLUSDT'' \<Longrightarrow>
   iterationA None priceTargetsA now st (Decoded (tick ''SOLUSDT'' ''208.9'')) =
     ([], Panic,
      st\<lparr>alertEmitted := True, lastSymbol := ''SOLUSDT'',
         alertTimer := FuncTimer (Some (now + minute))\<rparr>)"
  by (simp add: iterationA_def TrimSpace_trade ParseFloat_2089 priceTargetsA_SOLUSDT
      checkTargetsA_nil within_2089 del: checkTargetsA.simps)

lemma readLoopA_Cons:
  "readLoopA botClient tbl st ((now, fr) # frames) =
     (let r = iterationA botClient tbl now (timerFires now st) fr in
      case fst (snd r) of
        Continue \<Rightarrow>
          (fst r @ fst (readLoopA botClient tbl (snd (snd r)) frames),
           snd (readLoopA botClient tbl (snd (snd r)) frames))
      | Return \<Rightarrow> (fst r, Returned)
      | Panic \<Rightarrow> (fst r, Panicked))"
  by (simp split: prod.splits control.splits)

lemma sends_sendTelegramChats:
  "sends (fst (sendTelegramChats (Some botSend) now trade p t)) = fanout (Symbol trade, p, t)"
  by (simp add: sendTelegramChats_def sends_sendTelegramChatsTo fanout_def)

lemma alerts_sendTelegramChats: "alerts (fst (sendTelegramChats botClient now trade p t)) = []"
  by (simp add: sendTelegramChats_def alerts_sendTelegramChatsTo)

lemma eventPrices_sends:
  "q \<in> set (concat (map eventPrices (fst (sendTelegramChats botClient now trade p t)))) \<Longrightarrow> q = p"
proof (cases botClient)
  case None
  then show "q \<in> set (concat (map eventPrices (fst (sendTelegramChats botClient now trade p t)))) \<Longrightarrow> q = p"
    by (simp add: sendTelegramChats_nil)
next
  case (Some botSend)
  have "q \<in> set (concat (map eventPrices (fst (sendTelegramChatsTo cs (Some botSend) now trade p t)))) \<Longrightarrow> q = p" for cs
    by (induction cs) (auto simp: sendMessage_def split_beta split: if_splits)
  then show "q \<in> set (concat (map eventPrices (fst (sendTelegramChats botClient now trade p t)))) \<Longrightarrow> q = p"
    by (simp add: sendTelegramChats_def Some)
qed

lemma eventPrices_checkTargetsA:
  "q \<in> set (concat (map eventPrices (fst (checkTargetsA botClient now trade p targets st)))) \<Longrightarrow> q = p"
proof (cases botClient)
  case None
  then show "q \<in> set (concat (map eventPrices (fst (checkTargetsA botClient now trade p targets st)))) \<Longrightarrow> q = p"
    by (auto simp: checkTargetsA_nil split: if_splits list.splits)
next
  case (Some botSend)
  then show "q \<in> set (concat (map eventPrices (fst (checkTargetsA botClient now trade p targets st)))) \<Longrightarrow> q = p"
    using eventPrices_sends[of q "Some botSend" now trade p]
    by (auto simp: checkTargetsA_created split: if_splits list.splits)
qed

lemma eventPrices_checkTargetsB:
  "q \<in> set (concat (map eventPrices (checkTargetsB trade p targets))) \<Longrightarrow> q = p"
  by (induction targets) (auto split: if_splits)

section \<open>More on float64 and parsing\<close>

lemma fle_antisym: "fle a b \<Longrightarrow> fle b a \<Longrightarrow> a = b"
  by (cases a; cases b) simp_all

lemma bounds_ordered:
  assumes "fle (Finite 0) T"
  shows "fle (fmul T (round64 (99 / 100))) (fmul T (round64 (101 / 100)))"
proof (cases T)
  case (Finite t)
  then have "0 \<le> t" using assms by simp
  then have "t * (4458563631096791 / 4503599627370496) \<le> t * (4548635623644201 / 4503599627370496)"
    by (intro mult_left_mono) simp_all
  then show ?thesis
    by (simp only: Finite round64_099 round64_101 fmul.simps fle_round64)
next
  case PInf
  then show ?thesis by (simp add: round64_099 round64_101)
qed (use assms in simp_all)

lemma fmul_round64_not_NaN:
  assumes "fle (Finite 0) T" "round64 c = Finite c'" "0 < c'"
  shows "fmul T (round64 c) \<noteq> NaN"
  using assms round64_not_NaN by (cases T) simp_all

lemma round64_401_4: "round64 (401 / 4) = Finite (401 / 4)"
  using round64_eval [of 6 "401 / 4" "401 * 2 ^ 44"] by simp

lemma ParseFloat_10025: "ParseFloat ''100.25'' = Inr (Finite (401 / 4))"
proof -
  have "special ''100.25'' = None" by code_simp
  moreover have "readFloat ''100.25'' = Some (False, 10, 10025, - 2, [])" by code_simp
  ultimately show ?thesis by (simp add: ParseFloat_def round64_401_4)
qed

section \<open>Evaluated runs\<close>

lemma ParseFloat_47: "ParseFloat ''47'' = Inr (Finite 47)"
proof -
  have "special ''47'' = None" by code_simp
  moreover have "readFloat ''47'' = Some (False, 10, 47, 0, [])" by code_simp
  ultimately show ?thesis by (simp add: ParseFloat_def round64_47)
qed

lemma priceTargetsA_AVAXUSDT: "priceTargetsA ''AVAXUSDT'' = Some [Finite 47, Finite 43]"
  by (simp add: priceTargetsA_def round64_47 round64_43)

lemma matching_SOL_2089:
  "matching priceTargetsA (Decoded (tick ''SOLUSDT'' ''208.9''))"
  by (simp add: matching_def TrimSpace_trade ParseFloat_2089 priceTargetsA_SOLUSDT within_2089)

lemma not_matching_before:
  "\<not> matching priceTargetsA (Decoded (tick ''DOGEUSDT'' ''205.00''))"
  "\<not> matching priceTargetsA (Decoded (tick ''SOLUSDT'' ''205.00''))"
  by (simp_all add: matching_def TrimSpace_trade ParseFloat_205 priceTargetsA_SOLUSDT
      priceTargetsA_DOGEUSDT within_205)

lemma iterationA_AVAX_47:
  "\<not> alertEmitted st \<or> lastSymbol st \<noteq> ''AVAXUSDT'' \<Longrightarrow> alertTimer st \<noteq> ChanTimer True \<Longrightarrow>
   iterationA (Some botSend) priceTargetsA now st (Decoded (tick ''AVAXUSDT'' ''47'')) =
     (fst (sendTelegramChats (Some botSend) now (tick ''AVAXUSDT'' ''47'') (Finite 47) (Finite 47))
        @ [Log (LogAlert ''AVAXUSDT'' (Finite 47) (Finite 47))],
      Continue,
      st\<lparr>alertEmitted := True, lastSymbol := ''AVAXUSDT'',
         alertTimer := FuncTimer (Some (now + minute))\<rparr>)"
  by (simp add: iterationA_tick ParseFloat_47 priceTargetsA_AVAXUSDT checkTargetsA_created within_47
      pollTimer_id del: checkTargetsA.simps)

lemma iterationA_SOL_2089_closed:
  "alertEmitted st \<Longrightarrow> lastSymbol st = ''SOLUSDT'' \<Longrightarrow> alertTimer st \<noteq> ChanTimer True \<Longrightarrow>
   iterationA botClient priceTargetsA now st (Decoded (tick ''SOLUSDT'' ''208.9'')) = ([], Continue, st)"
  by (simp add: iterationA_def TrimSpace_trade ParseFloat_2089 priceTargetsA_SOLUSDT
      checkTargetsA_closed pollTimer_id del: checkTargetsA.simps)

lemma iterationA_DOGE_205:
  "alertTimer st \<noteq> ChanTimer True \<Longrightarrow>
   iterationA botClient priceTargetsA now st (Decoded (tick ''DOGEUSDT'' ''205.00''))
     = ([Log (LogCurrentPrice ''DOGEUSDT'' (Finite 205))], Continue, st)"
  by (simp add: iterationA_absent priceTargetsA_DOGEUSDT ParseFloat_205 pollTimer_id)

lemma iterationA_SOL_205:
  "alertTimer st \<noteq> ChanTimer True \<Longrightarrow>
   iterationA botClient priceTargetsA now st (Decoded (tick ''SOLUSDT'' ''205.00''))
     = ([], Continue, st)"
  by (simp add: iterationA_def TrimSpace_trade ParseFloat_205 priceTargetsA_SOLUSDT
      checkTargetsA_cases within_205 pollTimer_id del: checkTargetsA.simps)

lemma assetsOf_A:
  "assetsOf [''LINKUSDT'', ''KSMUSDT'', ''COTIUSDT'', ''SOLUSDT'', ''XLMUSDT'', ''ALGOUSDT'',
      ''PENDLEUSDT'', ''RNDRUSDT'', ''RAYUSDT'', ''JASMYUSDT'', ''GALAUSDT'', ''AVAXUSDT'',
      ''KDAUSDT'', ''ICPUSDT'', ''DIAUSDT'', ''SUPERUSDT'', ''RSRUSDT'', ''TAOUSDT'', ''ONDOUSDT'',
      ''ZILUSDT'', ''LITUSDT'', ''TIAUSDT'']
   = [''linkusdt@trade'', ''ksmusdt@trade'', ''cotiusdt@trade'', ''solusdt@trade'',
      ''xlmusdt@trade'', ''algousdt@trade'', ''pendleusdt@trade'', ''rndrusdt@trade'',
      ''rayusdt@trade'', ''jasmyusdt@trade'', ''galausdt@trade'', ''avaxusdt@trade'',
      ''kdausdt@trade'', ''icpusdt@trade'', ''diausdt@trade'', ''superusdt@trade'',
      ''rsrusdt@trade'', ''taousdt@trade'', ''ondousdt@trade'', ''zilusdt@trade'',
      ''litusdt@trade'', ''tiausdt@trade'']"
  by code_simp

lemma dom_priceTargetsA:
  "dom priceTargetsA = set [''LINKUSDT'', ''KSMUSDT'', ''COTIUSDT'', ''SOLUSDT'', ''XLMUSDT'', ''ALGOUSDT'',
      ''PENDLEUSDT'', ''RNDRUSDT'', ''RAYUSDT'', ''JASMYUSDT'', ''GALAUSDT'', ''AVAXUSDT'',
      ''KDAUSDT'', ''ICPUSDT'', ''DIAUSDT'', ''SUPERUSDT'', ''RSRUSDT'', ''TAOUSDT'', ''ONDOUSDT'',
      ''ZILUSDT'', ''LITUSDT'', ''TIAUSDT'']"
  by (simp add: priceTargetsA_def dom_map_of_conv_image_fst)

section \<open>Runs of the loop of variant A\<close>

lemma readLoopA_append:
  "readLoopA botClient tbl st (xs @ ys) =
     (case readLoopA botClient tbl st xs of
        (out, Reading st') \<Rightarrow>
          (out @ fst (readLoopA botClient tbl st' ys), snd (readLoopA botClient tbl st' ys))
      | (out, Returned) \<Rightarrow> (out, Returned)
      | (out, Panicked) \<Rightarrow> (out, Panicked))"
proof (induction xs arbitrary: st)
  case Nil
  show ?case by simp
next
  case (Cons a xs)
  obtain now fr where a: "a = (now, fr)" by (cases a)
  show ?case
    by (simp add: a Cons.IH split: prod.splits control.splits ending.splits)
qed

text \<open>
  A loop over the targets that goes on has raised no alert and left the state as it was,
  or has raised one alert, for the tick's symbol, and recorded that symbol.
\<close>

lemma checkTargetsA_alerts:
  assumes "checkTargetsA botClient now trade p targets st = (out, Continue, st')"
  shows "(alerts out = [] \<longrightarrow> st' = st)
       \<and> (alerts out \<noteq> [] \<longrightarrow> lastSymbol st' = fst (last (alerts out)))"
proof (cases botClient)
  case None
  then show ?thesis
    using assms by (auto simp: checkTargetsA_nil split: if_splits list.splits)
next
  case (Some botSend)
  then show ?thesis
    using assms
    by (auto simp: checkTargetsA_created alerts_append alerts_sendTelegramChats
        split: if_splits list.splits)
qed

lemma iterationA_Continue:
  assumes "iterationA botClient tbl now st (Decoded trade) = (out, Continue, st')"
  shows "(TrimSpace (Event trade) \<noteq> ''trade'' \<and> out = [] \<and> st' = st)
       \<or> (\<exists>err. TrimSpace (Event trade) = ''trade'' \<and> ParseFloat (Price trade) = Inl err
             \<and> out = [Log (LogPriceError err)] \<and> st' = st)
       \<or> (\<exists>p. TrimSpace (Event trade) = ''trade'' \<and> ParseFloat (Price trade) = Inr p
             \<and> tbl (Symbol trade) = None
             \<and> out = [Log (LogCurrentPrice (Symbol trade) p)] \<and> st' = pollTimer st)
       \<or> (\<exists>p targets st''. TrimSpace (Event trade) = ''trade'' \<and> ParseFloat (Price trade) = Inr p
             \<and> tbl (Symbol trade) = Some targets
             \<and> checkTargetsA botClient now trade p targets st = (out, Continue, st'')
             \<and> st' = pollTimer st'')"
  using assms
  by (auto simp: iterationA_def split: if_splits sum.splits option.splits prod.splits control.splits)

text \<open>One turn: either no alert and the symbol stays, or one alert, for the tick's symbol.\<close>

lemma iterationA_alerts:
  assumes "iterationA botClient tbl now st fr = (out, Continue, st')"
  shows "(alerts out = [] \<longrightarrow> lastSymbol st' = lastSymbol st \<and> (alertEmitted st' \<longrightarrow> alertEmitted st))
       \<and> (alerts out \<noteq> [] \<longrightarrow> lastSymbol st' = fst (last (alerts out)))"
proof (cases fr)
  case (Decoded trade)
  from iterationA_Continue[OF assms[unfolded Decoded]] show ?thesis
  proof (elim disjE exE conjE)
    fix p targets st''
    assume c: "checkTargetsA botClient now trade p targets st = (out, Continue, st'')"
      and s: "st' = pollTimer st''"
    show ?thesis
      using checkTargetsA_alerts[OF c] pollTimer_flag[of st''] by (auto simp: s)
  qed (use pollTimer_flag[of st] in auto)
qed (use assms in \<open>auto simp: iterationA_def\<close>)

lemma readLoopA_alerts:
  assumes "readLoopA botClient tbl st frames = (out, Reading st')"
  shows "(alerts out = [] \<longrightarrow> lastSymbol st' = lastSymbol st \<and> (alertEmitted st' \<longrightarrow> alertEmitted st))
       \<and> (alerts out \<noteq> [] \<longrightarrow> lastSymbol st' = fst (last (alerts out)))"
  using assms
proof (induction frames arbitrary: st out)
  case Nil
  then show ?case by simp
next
  case (Cons a frames)
  obtain now fr where a: "a = (now, fr)" by (cases a)
  obtain o1 c st1 where it: "iterationA botClient tbl now (timerFires now st) fr = (o1, c, st1)"
    by (cases "iterationA botClient tbl now (timerFires now st) fr") auto
  obtain o2 e where rest: "readLoopA botClient tbl st1 frames = (o2, e)"
    by (cases "readLoopA botClient tbl st1 frames") auto
  from Cons.prems have c: "c = Continue" and e: "e = Reading st'" and out: "out = o1 @ o2"
    by (auto simp: a it rest split: control.splits)
  note i1 = iterationA_alerts[OF it[unfolded c]]
  note i2 = Cons.IH[OF rest[unfolded e]]
  show ?case
  proof (cases "alerts o2 = []")
    case True
    then show ?thesis using i1 i2 timerFires_fields[of now st]
      by (auto simp: out alerts_append)
  next
    case False
    then show ?thesis using i2 by (simp add: out alerts_append)
  qed
qed

lemma iterationA_no_alert:
  assumes "iterationA botClient tbl now st fr = (out, Continue, st')" "alerts out = []"
    "alertTimer st = ChanTimer False"
  shows "st' = st"
proof (cases fr)
  case (Decoded trade)
  have p: "pollTimer st = st" using assms(3) by (simp add: pollTimer_id)
  from iterationA_Continue[OF assms(1)[unfolded Decoded]] show ?thesis
  proof (elim disjE exE conjE)
    fix pr targets st''
    assume c: "checkTargetsA botClient now trade pr targets st = (out, Continue, st'')"
      and s: "st' = pollTimer st''"
    show ?thesis
      using checkTargetsA_alerts[OF c] assms(2) p by (simp add: s)
  qed (use p in auto)
qed (use assms in \<open>auto simp: iterationA_def\<close>)

lemma readLoopA_no_alert:
  assumes "readLoopA botClient tbl st frames = (out, Reading st')" "alerts out = []"
    "alertTimer st = ChanTimer False"
  shows "st' = st"
  using assms
proof (induction frames arbitrary: st out)
  case Nil
  then show ?case by simp
next
  case (Cons a frames)
  obtain now fr where a: "a = (now, fr)" by (cases a)
  have tf: "timerFires now st = st" using Cons.prems(3) by (simp add: timerFires_def)
  obtain o1 c st1 where it: "iterationA botClient tbl now st fr = (o1, c, st1)"
    by (cases "iterationA botClient tbl now st fr") auto
  obtain o2 e where rest: "readLoopA botClient tbl st1 frames = (o2, e)"
    by (cases "readLoopA botClient tbl st1 frames") auto
  from Cons.prems(1) have c: "c = Continue" and e: "e = Reading st'" and out: "out = o1 @ o2"
    by (auto simp: a tf it rest split: control.splits)
  from Cons.prems(2) have n: "alerts o1 = []" "alerts o2 = []" by (simp_all add: out alerts_append)
  have "st1 = st" using iterationA_no_alert[OF it[unfolded c] n(1) Cons.prems(3)] .
  then show ?case using Cons.IH[OF rest[unfolded e] n(2)] Cons.prems(3) by simp
qed

lemma iterationA_not_matching:
  assumes "\<not> matching tbl fr"
  shows "alerts (fst (iterationA botClient tbl now st fr)) = []"
proof (cases fr)
  case (Decoded trade)
  have "filter (isWithinThreshold p) targets = []"
    if "TrimSpace (Event trade) = ''trade''" "ParseFloat (Price trade) = Inr p"
      "tbl (Symbol trade) = Some targets" for p targets
    using assms that by (auto simp: matching_def Decoded filter_empty_conv)
  then show ?thesis
    by (auto simp: Decoded fst_iterationA_Decoded checkTargetsA_cases split: sum.splits option.splits)
qed (simp_all add: iterationA_def)

lemma readLoopA_not_matching:
  assumes "\<forall>f \<in> set frames. \<not> matching tbl (snd f)"
  shows "alerts (fst (readLoopA botClient tbl st frames)) = []"
  using assms
proof (induction frames arbitrary: st)
  case Nil
  show ?case by simp
next
  case (Cons a frames)
  obtain now fr where a: "a = (now, fr)" by (cases a)
  have "\<not> matching tbl fr" using Cons.prems by (simp add: a)
  then have "alerts (fst (iterationA botClient tbl now (timerFires now st) fr)) = []"
    by (rule iterationA_not_matching)
  moreover have "alerts (fst (readLoopA botClient tbl st' frames)) = []" for st'
    using Cons.IH Cons.prems by simp
  ultimately show ?case
    unfolding a readLoopA_Cons Let_def by (simp add: alerts_append split: control.splits)
qed

lemma readLoopA_timer:
  assumes "readLoopA botClient tbl st frames = (out, Reading st')" "alertTimer st \<noteq> ChanTimer True"
  shows "alertTimer st' \<noteq> ChanTimer True"
  using assms
proof (induction frames arbitrary: st out)
  case Nil
  then show ?case by simp
next
  case (Cons a frames)
  obtain now fr where a: "a = (now, fr)" by (cases a)
  obtain o1 c st1 where it: "iterationA botClient tbl now (timerFires now st) fr = (o1, c, st1)"
    by (cases "iterationA botClient tbl now (timerFires now st) fr") auto
  obtain o2 e where rest: "readLoopA botClient tbl st1 frames = (o2, e)"
    by (cases "readLoopA botClient tbl st1 frames") auto
  from Cons.prems(1) have c: "c = Continue" and e: "e = Reading st'"
    by (auto simp: a it rest split: control.splits)
  have t: "alertTimer (timerFires now st) \<noteq> ChanTimer True"
    using timerFires_timer[OF Cons.prems(2)] .
  have "alertTimer st1 \<noteq> ChanTimer True"
  proof (cases fr)
    case (Decoded trade)
    from iterationA_Continue[OF it[unfolded c Decoded]] show ?thesis
      using t pollTimer_timer by (elim disjE exE conjE) auto
  qed (use it c in \<open>auto simp: iterationA_def\<close>)
  then show ?case using Cons.IH[OF rest[unfolded e]] by simp
qed

section \<open>With a created client\<close>

text \<open>
  When \<^verbatim>\<open>NewBotAPI\<close> has created the client, variant A does what the claims about its
  notifications say. The messages sent are the fan-out of the alerts raised.
\<close>

lemma checkTargetsA_sends_alerts:
  "sends (fst (checkTargetsA (Some botSend) now trade p targets st)) =
     concat (map fanout (alerts (fst (checkTargetsA (Some botSend) now trade p targets st))))"
  by (simp add: checkTargetsA_created sends_append alerts_append sends_sendTelegramChats
      alerts_sendTelegramChats split: list.splits)

lemma iterationA_sends_alerts:
  "sends (fst (iterationA (Some botSend) tbl now st fr)) =
     concat (map fanout (alerts (fst (iterationA (Some botSend) tbl now st fr))))"
proof (cases fr)
  case (Decoded trade)
  show ?thesis
    by (simp add: Decoded fst_iterationA_Decoded checkTargetsA_sends_alerts
        split: sum.splits option.splits)
qed (simp_all add: iterationA_def)

lemma readLoopA_sends_alerts:
  "sends (fst (readLoopA (Some botSend) tbl st frames)) =
     concat (map fanout (alerts (fst (readLoopA (Some botSend) tbl st frames))))"
proof (induction frames arbitrary: st)
  case Nil
  show ?case by simp
next
  case (Cons a frames)
  obtain now fr where a: "a = (now, fr)" by (cases a)
  show ?case
    unfolding a readLoopA_Cons Let_def
    using Cons.IH iterationA_sends_alerts[of botSend tbl now "timerFires now st" fr]
    by (simp add: sends_append alerts_append split: control.splits)
qed

text \<open>Which deliveries fail changes neither what is sent nor how the loop goes on.\<close>

lemma checkTargetsA_indep:
  "snd (checkTargetsA (Some b1) now trade p targets st)
     = snd (checkTargetsA (Some b2) now trade p targets st)
   \<and> sends (fst (checkTargetsA (Some b1) now trade p targets st))
       = sends (fst (checkTargetsA (Some b2) now trade p targets st))
   \<and> alerts (fst (checkTargetsA (Some b1) now trade p targets st))
       = alerts (fst (checkTargetsA (Some b2) now trade p targets st))"
  by (simp add: checkTargetsA_created sends_append alerts_append sends_sendTelegramChats
      alerts_sendTelegramChats split: list.splits)

lemma iterationA_indep:
  "snd (iterationA (Some b1) tbl now st fr) = snd (iterationA (Some b2) tbl now st fr)
   \<and> sends (fst (iterationA (Some b1) tbl now st fr))
       = sends (fst (iterationA (Some b2) tbl now st fr))
   \<and> alerts (fst (iterationA (Some b1) tbl now st fr))
       = alerts (fst (iterationA (Some b2) tbl now st fr))"
proof (cases fr)
  case (Decoded trade)
  show ?thesis
    using checkTargetsA_indep[of b1 now trade _ _ st b2]
    by (simp add: Decoded iterationA_created split: sum.splits option.splits)
qed (simp_all add: iterationA_def)

lemma readLoopA_indep:
  "snd (readLoopA (Some b1) tbl st frames) = snd (readLoopA (Some b2) tbl st frames)
   \<and> sends (fst (readLoopA (Some b1) tbl st frames))
       = sends (fst (readLoopA (Some b2) tbl st frames))
   \<and> alerts (fst (readLoopA (Some b1) tbl st frames))
       = alerts (fst (readLoopA (Some b2) tbl st frames))"
proof (induction frames arbitrary: st)
  case Nil
  show ?case by simp
next
  case (Cons a frames)
  obtain now fr where a: "a = (now, fr)" by (cases a)
  have i: "snd (iterationA (Some b1) tbl now (timerFires now st) fr)
             = snd (iterationA (Some b2) tbl now (timerFires now st) fr)"
    "sends (fst (iterationA (Some b1) tbl now (timerFires now st) fr))
       = sends (fst (iterationA (Some b2) tbl now (timerFires now st) fr))"
    "alerts (fst (iterationA (Some b1) tbl now (timerFires now st) fr))
       = alerts (fst (iterationA (Some b2) tbl now (timerFires now st) fr))"
    using iterationA_indep[of b1 tbl now "timerFires now st" fr b2] by simp_all
  show ?case
    unfolding a readLoopA_Cons Let_def
    using Cons.IH[of "snd (snd (iterationA (Some b2) tbl now (timerFires now st) fr))"]
    by (simp add: i sends_append alerts_append split: control.splits)
qed

text \<open>
  Every alert goes to every chat of \<open>chatIds\<close>, in order, with the same symbol, price and
  target; a failed delivery is logged for its chat and the next ones are tried.
\<close>

lemma created_client_fanout:
  "sends (fst (sendTelegramChats (Some botSend) now trade p t))
     = map (\<lambda>c. \<lparr>ChatID = c, AlertSymbol = Symbol trade, AlertPrice = p, Target = t\<rparr>) chatIds
   \<and> sendErrors (fst (sendTelegramChats (Some botSend) now trade p t))
     = filter (\<lambda>c. \<not> botSend now
           \<lparr>ChatID = c, AlertSymbol = Symbol trade, AlertPrice = p, Target = t\<rparr>) chatIds
   \<and> snd (sendTelegramChats (Some botSend) now trade p t) = Continue
   \<and> sends (fst (readLoopA (Some botSend) priceTargets st frames))
     = concat (map fanout (alerts (fst (readLoopA (Some botSend) priceTargets st frames))))
   \<and> sends (fst (readLoopA (Some botSend) priceTargets st frames))
     = sends (fst (readLoopA (Some (\<lambda>now m. True)) priceTargets st frames))
   \<and> snd (readLoopA (Some botSend) priceTargets st frames)
     = snd (readLoopA (Some (\<lambda>now m. True)) priceTargets st frames)
   \<and> fst (snd (iterationA (Some botSend) priceTargets now st (Decoded trade))) = Continue"
  using readLoopA_indep[of botSend priceTargets st frames "\<lambda>now m. True"]
  by (simp add: sendTelegramChats_def sends_sendTelegramChatsTo sendErrors_sendTelegramChatsTo
      snd_sendTelegramChatsTo readLoopA_sends_alerts iterationA_created
      split: sum.splits option.splits)

text \<open>
  The suppression: an alert is raised only if the flag is clear or the recorded symbol is
  another one; it sets the flag, records the symbol and arms the timer for one minute
  (60000000000 ns) later; once the deadline is reached the flag is cleared; while the
  window a symbol armed is open a further matching tick for that symbol gives nothing,
  and a matching tick for another symbol is sent to every chat.
\<close>

lemma created_client_suppression:
  "(alerts (fst (checkTargetsA (Some botSend) now trade p targets st)) \<noteq> []
      \<or> sends (fst (checkTargetsA (Some botSend) now trade p targets st)) \<noteq> []
      \<longrightarrow> (\<not> alertEmitted st \<or> lastSymbol st \<noteq> Symbol trade)
          \<and> alertEmitted (snd (snd (checkTargetsA (Some botSend) now trade p targets st)))
          \<and> lastSymbol (snd (snd (checkTargetsA (Some botSend) now trade p targets st))) = Symbol trade
          \<and> alertTimer (snd (snd (checkTargetsA (Some botSend) now trade p targets st)))
              = FuncTimer (Some (now + 60000000000)))
   \<and> (alertTimer st2 = FuncTimer (Some deadline) \<and> deadline \<le> now2
      \<longrightarrow> \<not> alertEmitted (timerFires now2 st2))
   \<and> (alertEmitted st3 \<and> lastSymbol st3 = Symbol trade3
        \<and> alertTimer st3 = FuncTimer (Some deadline3) \<and> now3 < deadline3
      \<longrightarrow> checkTargetsA botClient now3 trade3 p3 targets3 (timerFires now3 st3)
            = ([], Continue, st3))
   \<and> (lastSymbol st4 \<noteq> Symbol trade4 \<and> t4 \<in> set targets4 \<and> isWithinThreshold p4 t4
      \<longrightarrow> (\<exists>t \<in> set targets4. isWithinThreshold p4 t
            \<and> sends (fst (checkTargetsA (Some botSend) now4 trade4 p4 targets4 (timerFires now4 st4)))
                = fanout (Symbol trade4, p4, t)
            \<and> alerts (fst (checkTargetsA (Some botSend) now4 trade4 p4 targets4 (timerFires now4 st4)))
                = [(Symbol trade4, p4, t)]))"
proof (intro conjI impI)
  assume a: "alerts (fst (checkTargetsA (Some botSend) now trade p targets st)) \<noteq> []
      \<or> sends (fst (checkTargetsA (Some botSend) now trade p targets st)) \<noteq> []"
  then show "\<not> alertEmitted st \<or> lastSymbol st \<noteq> Symbol trade"
    by (auto simp: checkTargetsA_created)
  from a show "alertEmitted (snd (snd (checkTargetsA (Some botSend) now trade p targets st)))"
    by (auto simp: checkTargetsA_created split: if_splits list.splits)
  from a show "lastSymbol (snd (snd (checkTargetsA (Some botSend) now trade p targets st))) = Symbol trade"
    by (auto simp: checkTargetsA_created split: if_splits list.splits)
  from a show "alertTimer (snd (snd (checkTargetsA (Some botSend) now trade p targets st)))
              = FuncTimer (Some (now + 60000000000))"
    by (auto simp: checkTargetsA_created minute_def split: if_splits list.splits)
next
  assume "alertTimer st2 = FuncTimer (Some deadline) \<and> deadline \<le> now2"
  then show "\<not> alertEmitted (timerFires now2 st2)" by (simp add: timerFires_def)
next
  assume a: "alertEmitted st3 \<and> lastSymbol st3 = Symbol trade3
        \<and> alertTimer st3 = FuncTimer (Some deadline3) \<and> now3 < deadline3"
  then have "timerFires now3 st3 = st3" by (simp add: timerFires_def)
  then show "checkTargetsA botClient now3 trade3 p3 targets3 (timerFires now3 st3)
      = ([], Continue, st3)"
    using a by (simp add: checkTargetsA_closed)
next
  assume a: "lastSymbol st4 \<noteq> Symbol trade4 \<and> t4 \<in> set targets4 \<and> isWithinThreshold p4 t4"
  then have "t4 \<in> set (filter (isWithinThreshold p4) targets4)" by simp
  then obtain t ts where f: "filter (isWithinThreshold p4) targets4 = t # ts"
    by (cases "filter (isWithinThreshold p4) targets4") auto
  then have "t \<in> set (filter (isWithinThreshold p4) targets4)" by simp
  then have t: "t \<in> set targets4" "isWithinThreshold p4 t" by simp_all
  have "lastSymbol (timerFires now4 st4) \<noteq> Symbol trade4" using a by (simp add: timerFires_fields)
  then have "fst (checkTargetsA (Some botSend) now4 trade4 p4 targets4 (timerFires now4 st4))
      = fst (sendTelegramChats (Some botSend) now4 trade4 p4 t)
        @ [Log (LogAlert (Symbol trade4) p4 t)]"
    by (simp add: checkTargetsA_created f)
  then show "\<exists>t \<in> set targets4. isWithinThreshold p4 t
            \<and> sends (fst (checkTargetsA (Some botSend) now4 trade4 p4 targets4 (timerFires now4 st4)))
                = fanout (Symbol trade4, p4, t)
            \<and> alerts (fst (checkTargetsA (Some botSend) now4 trade4 p4 targets4 (timerFires now4 st4)))
                = [(Symbol trade4, p4, t)]"
    using t by (intro bexI[of _ t]) (simp_all add: sends_append alerts_append
        sends_sendTelegramChats alerts_sendTelegramChats)
qed

text \<open>
  The first matching tick of a run: when no frame before it matched, the state is still
  the initial one, and the tick takes the alert branch for its first matching target.
  With a created client it is sent to every chat; with the nil client the run panics
  there and nothing is sent. And whenever the flag is set after a run, an alert has been
  raised and the recorded symbol is the symbol of the last one.
\<close>

lemma first_match:
  assumes "readLoopA botClient priceTargets initialState frames = (out, Reading st)"
    "\<forall>f \<in> set frames. \<not> matching priceTargets (snd f)"
    "matching priceTargets (Decoded trade)"
  shows "\<exists>p targets t. ParseFloat (Price trade) = Inr p
            \<and> priceTargets (Symbol trade) = Some targets
            \<and> t \<in> set targets \<and> isWithinThreshold p t
            \<and> readLoopA botClient priceTargets initialState (frames @ [(now, Decoded trade)])
                = (case botClient of
                     None \<Rightarrow> (out, Panicked)
                   | Some botSend \<Rightarrow>
                       (out @ fst (sendTelegramChats (Some botSend) now trade p t)
                          @ [Log (LogAlert (Symbol trade) p t)],
                        Reading (initialState\<lparr>alertEmitted := True, lastSymbol := Symbol trade,
                                   alertTimer := FuncTimer (Some (now + minute))\<rparr>)))"
proof -
  note run = assms(1)
  have "alerts out = []" using readLoopA_not_matching[OF assms(2), of botClient initialState]
    by (simp add: run)
  then have st: "st = initialState" using readLoopA_no_alert[OF run] by simp
  from assms(3) obtain p targets t0 where m: "TrimSpace (Event trade) = ''trade''"
      "ParseFloat (Price trade) = Inr p" "priceTargets (Symbol trade) = Some targets"
      "t0 \<in> set targets" "isWithinThreshold p t0"
    by (auto simp: matching_def split: sum.splits option.splits)
  then have "t0 \<in> set (filter (isWithinThreshold p) targets)" by simp
  then obtain t ts where f: "filter (isWithinThreshold p) targets = t # ts"
    by (cases "filter (isWithinThreshold p) targets") auto
  then have "t \<in> set (filter (isWithinThreshold p) targets)" by simp
  then have t: "t \<in> set targets" "isWithinThreshold p t" by simp_all
  have "readLoopA botClient priceTargets initialState (frames @ [(now, Decoded trade)])
      = (case botClient of
           None \<Rightarrow> (out, Panicked)
         | Some botSend \<Rightarrow>
             (out @ fst (sendTelegramChats (Some botSend) now trade p t)
                @ [Log (LogAlert (Symbol trade) p t)],
              Reading (initialState\<lparr>alertEmitted := True, lastSymbol := Symbol trade,
                         alertTimer := FuncTimer (Some (now + minute))\<rparr>)))"
  proof (cases botClient)
    case None
    have "iterationA None priceTargets now initialState (Decoded trade)
        = ([], Panic, initialState\<lparr>alertEmitted := True, lastSymbol := Symbol trade,
              alertTimer := FuncTimer (Some (now + minute))\<rparr>)"
      using m by (simp add: iterationA_def checkTargetsA_nil f)
    then show ?thesis
      using run by (simp add: readLoopA_append None st)
  next
    case (Some botSend)
    have "iterationA (Some botSend) priceTargets now initialState (Decoded trade)
        = (fst (sendTelegramChats (Some botSend) now trade p t)
             @ [Log (LogAlert (Symbol trade) p t)],
           Continue,
           initialState\<lparr>alertEmitted := True, lastSymbol := Symbol trade,
              alertTimer := FuncTimer (Some (now + minute))\<rparr>)"
      using m by (simp add: iterationA_created checkTargetsA_created f pollTimer_def)
    then show ?thesis
      using run by (simp add: readLoopA_append Some st)
  qed
  then show ?thesis
    using m t by (intro exI[of _ p] exI[of _ targets] exI[of _ t]) simp
qed

lemma recorded_symbol:
  assumes "readLoopA botClient priceTargets initialState frames = (out, Reading st)"
    "alertEmitted st"
  shows "alerts out \<noteq> [] \<and> lastSymbol st = fst (last (alerts out)) \<and> botClient \<noteq> None"
proof -
  have a: "alerts out \<noteq> []" using readLoopA_alerts[OF assms(1)] assms(2) by auto
  then have l: "lastSymbol st = fst (last (alerts out))" using readLoopA_alerts[OF assms(1)] by simp
  have "botClient \<noteq> None"
  proof
    assume n: "botClient = None"
    have "alerts (fst (readLoopA None tbl st0 frames0)) = []" for tbl st0 frames0
    proof (induction frames0 arbitrary: st0)
      case Nil
      show ?case by simp
    next
      case (Cons a frames0)
      obtain now fr where a: "a = (now, fr)" by (cases a)
      have "alerts (fst (iterationA None tbl now (timerFires now st0) fr)) = []"
      proof (cases fr)
        case (Decoded trade)
        show ?thesis
          by (simp add: Decoded fst_iterationA_Decoded checkTargetsA_nil
              split: sum.splits option.splits list.splits)
      qed (simp_all add: iterationA_def)
      then show ?case
        unfolding a readLoopA_Cons Let_def
        using Cons.IH by (simp add: alerts_append split: control.splits)
    qed
    then show False using a assms(1) n by (metis fst_conv)
  qed
  then show ?thesis using a l by simp
qed

section \<open>Decode failures\<close>

text \<open>
  C1 (as the code has it). A message whose outer JSON structure does not decode is
  logged and then panics, in both variants alike: the loop reads no further frame and
  the process ends. Neither variant goes on to the next message.
\<close>

theorem decode_failure_panics:
  "readLoopA botClient priceTargets st ((now, Undecodable message) # frames)
     = ([Log LogDecodeError], Panicked)
   \<and> readLoopB priceTargets' (Undecodable message # frames') = ([Log LogDecodeError], Panicked)"
  by (simp add: iterationA_def iterationB_def)

theorem decode_failure_panics_witness:
  "readLoopA (Some (\<lambda>now m. True)) priceTargetsA initialState
       [(0, Undecodable ''{''), (1, Decoded (tick ''SOLUSDT'' ''205.00''))]
     = ([Log LogDecodeError], Panicked)
   \<and> readLoopB priceTargetsB [Undecodable ''{'', Decoded (tick ''SOLUSDT'' ''205.00'')]
     = ([Log LogDecodeError], Panicked)"
  using decode_failure_panics
    [of "Some (\<lambda>now m. True)" priceTargetsA initialState 0 "''{''"
        "[(1, Decoded (tick ''SOLUSDT'' ''205.00''))]" priceTargetsB
        "[Decoded (tick ''SOLUSDT'' ''205.00'')]"]
  by simp

text \<open>
  C1 as stated has one variant skip the frame and go on. Variant B, the one without the
  alert state, panics on it too, and so does variant A.
\<close>

theorem decode_failure_counterexample:
  "snd (readLoopB priceTargetsB [Undecodable ''{'', Decoded (tick ''SOLUSDT'' ''205.00'')])
     = Panicked
   \<and> snd (readLoopA (Some (\<lambda>now m. True)) priceTargetsA initialState
       [(0, Undecodable ''{''), (1, Decoded (tick ''SOLUSDT'' ''205.00''))]) = Panicked"
  by (simp add: iterationA_def iterationB_def)

section \<open>Candidate alerts\<close>




section \<open>The tolerance band\<close>

text \<open>
  C3. \<^verbatim>\<open>isWithinThreshold(P, T)\<close> is true exactly when \<^verbatim>\<open>0.99*T <= P <= 1.01*T\<close>, in
  float64: 0.99 and 1.01 are the nearest float64 constants, each product is rounded to
  nearest, and a comparison with NaN is false. Both bounds are inclusive: for every
  target that is not negative (and not NaN) it is true at \<^verbatim>\<open>P = 0.99*T\<close> and at
  \<^verbatim>\<open>P = 1.01*T\<close>; and for every target it is false at any \<open>P\<close> strictly below
  \<^verbatim>\<open>0.99*T\<close> or strictly above \<^verbatim>\<open>1.01*T\<close>. (For a negative target \<^verbatim>\<open>1.01*T\<close> is the
  smaller of the two bounds and the band is empty; the targets of both tables are
  positive.)
\<close>

theorem isWithinThreshold_band:
  "(isWithinThreshold P T \<longleftrightarrow>
      fle (fmul T (round64 (99 / 100))) P \<and> fle P (fmul T (round64 (101 / 100))))
   \<and> (fle (Finite 0) T' \<longrightarrow>
        isWithinThreshold (fmul T' (round64 (99 / 100))) T'
        \<and> isWithinThreshold (fmul T' (round64 (101 / 100))) T')
   \<and> (fle P1 (fmul T1 (round64 (99 / 100))) \<and> P1 \<noteq> fmul T1 (round64 (99 / 100))
        \<longrightarrow> \<not> isWithinThreshold P1 T1)
   \<and> (fle (fmul T2 (round64 (101 / 100))) P2 \<and> P2 \<noteq> fmul T2 (round64 (101 / 100))
        \<longrightarrow> \<not> isWithinThreshold P2 T2)"
proof (intro conjI impI)
  show "isWithinThreshold P T \<longleftrightarrow>
      fle (fmul T (round64 (99 / 100))) P \<and> fle P (fmul T (round64 (101 / 100)))"
    by (simp add: isWithinThreshold_def fge_def Let_def)
next
  assume a: "fle (Finite 0) T'"
  have n1: "fmul T' (round64 (99 / 100)) \<noteq> NaN"
    using fmul_round64_not_NaN[OF a round64_099] by simp
  have n2: "fmul T' (round64 (101 / 100)) \<noteq> NaN"
    using fmul_round64_not_NaN[OF a round64_101] by simp
  show "isWithinThreshold (fmul T' (round64 (99 / 100))) T'"
    using bounds_ordered[OF a] fle_refl[OF n1]
    by (simp add: isWithinThreshold_def fge_def Let_def)
  show "isWithinThreshold (fmul T' (round64 (101 / 100))) T'"
    using bounds_ordered[OF a] fle_refl[OF n2]
    by (simp add: isWithinThreshold_def fge_def Let_def)
next
  assume "fle P1 (fmul T1 (round64 (99 / 100))) \<and> P1 \<noteq> fmul T1 (round64 (99 / 100))"
  then show "\<not> isWithinThreshold P1 T1"
    using fle_antisym[of P1 "fmul T1 (round64 (99 / 100))"]
    by (auto simp: isWithinThreshold_def fge_def Let_def)
next
  assume "fle (fmul T2 (round64 (101 / 100))) P2 \<and> P2 \<noteq> fmul T2 (round64 (101 / 100))"
  then show "\<not> isWithinThreshold P2 T2"
    using fle_antisym[of P2 "fmul T2 (round64 (101 / 100))"]
    by (auto simp: isWithinThreshold_def fge_def Let_def)
qed

theorem isWithinThreshold_band_witness:
  "fle (Finite 0) (Finite 210)
   \<and> fmul (Finite 210) (round64 (99 / 100)) = Finite (7314830957268173 / 35184372088832)
   \<and> fmul (Finite 210) (round64 (101 / 100)) = Finite (7462605320041267 / 35184372088832)
   \<and> isWithinThreshold (Finite (7314830957268173 / 35184372088832)) (Finite 210)
   \<and> isWithinThreshold (Finite (7462605320041267 / 35184372088832)) (Finite 210)
   \<and> fle (Finite (7314830957268172 / 35184372088832)) (Finite (7314830957268173 / 35184372088832))
   \<and> Finite (7314830957268172 / 35184372088832) \<noteq> Finite (7314830957268173 / 35184372088832)
   \<and> \<not> isWithinThreshold (Finite (7314830957268172 / 35184372088832)) (Finite 210)
   \<and> fle (Finite (7462605320041267 / 35184372088832)) (Finite (7462605320041268 / 35184372088832))
   \<and> Finite (7462605320041268 / 35184372088832) \<noteq> Finite (7462605320041267 / 35184372088832)
   \<and> \<not> isWithinThreshold (Finite (7462605320041268 / 35184372088832)) (Finite 210)
   \<and> isWithinThreshold (Finite (7350015329357005 / 35184372088832)) (Finite 210)"
  using isWithinThreshold_band
    [where T' = "Finite 210" and ?P1.0 = "Finite (7314830957268172 / 35184372088832)"
       and ?T1.0 = "Finite 210" and ?P2.0 = "Finite (7462605320041268 / 35184372088832)"
       and ?T2.0 = "Finite 210" and P = "Finite (7350015329357005 / 35184372088832)"
       and T = "Finite 210"]
  by (simp add: round64_099 round64_101 lower_210 upper_210)

section \<open>Suppression of repeated alerts\<close>

text \<open>
  C4 (where the code departs from it). The suppression itself is as the claim has it: a
  matching tick is let through only when the flag is clear or the recorded symbol is
  another one, and the flag, the symbol and the one-minute timer are set before the alert
  is sent. What fails is the delivery. \<^verbatim>\<open>botTelegram\<close> logs a failed \<^verbatim>\<open>NewBotAPI\<close> and keeps
  the nil client, so the first alert of the run arms the window and then panics in
  \<^verbatim>\<open>bot.Send\<close>: the tick for another symbol that arrives inside the window is never
  looked at, and nothing is delivered for it. With a created client the same frames give
  what the claim says: the second tick for SOLUSDT, one second after the first, is
  withheld, and the tick for AVAXUSDT, one second later, is sent to every chat.
\<close>

theorem nil_client_panics_inside_the_window:
  "botTelegram None = ([Log LogBotError], None)
   \<and> iterationA (snd (botTelegram None)) priceTargetsA 0 initialState
        (Decoded (tick ''SOLUSDT'' ''208.9''))
     = ([], Panic,
        \<lparr>alertEmitted = True, lastSymbol = ''SOLUSDT'',
         alertTimer = FuncTimer (Some 60000000000)\<rparr>)
   \<and> readLoopA (snd (botTelegram None)) priceTargetsA initialState
        [(0, Decoded (tick ''SOLUSDT'' ''208.9'')),
         (1000000000, Decoded (tick ''SOLUSDT'' ''208.9'')),
         (2000000000, Decoded (tick ''AVAXUSDT'' ''47''))]
     = ([], Panicked)
   \<and> sends (fst (readLoopA (snd (botTelegram (Some (\<lambda>now m. True)))) priceTargetsA initialState
        [(0, Decoded (tick ''SOLUSDT'' ''208.9'')),
         (1000000000, Decoded (tick ''SOLUSDT'' ''208.9'')),
         (2000000000, Decoded (tick ''AVAXUSDT'' ''47''))]))
     = fanout (''SOLUSDT'', Finite (7350015329357005 / 35184372088832), Finite 210)
       @ fanout (''AVAXUSDT'', Finite 47, Finite 47)"
proof -
  have n: "iterationA None priceTargetsA 0 initialState (Decoded (tick ''SOLUSDT'' ''208.9''))
     = ([], Panic,
        \<lparr>alertEmitted = True, lastSymbol = ''SOLUSDT'',
         alertTimer = FuncTimer (Some 60000000000)\<rparr>)"
    by (simp add: iterationA_SOL_2089_nil) (simp add: initialState_def minute_def)
  have t1: "timerFires 1000000000
       \<lparr>alertEmitted = True, lastSymbol = ''SOLUSDT'', alertTimer = FuncTimer (Some 60000000000)\<rparr>
     = \<lparr>alertEmitted = True, lastSymbol = ''SOLUSDT'', alertTimer = FuncTimer (Some 60000000000)\<rparr>"
    by (simp add: timerFires_def)
  have t2: "timerFires 2000000000
       \<lparr>alertEmitted = True, lastSymbol = ''SOLUSDT'', alertTimer = FuncTimer (Some 60000000000)\<rparr>
     = \<lparr>alertEmitted = True, lastSymbol = ''SOLUSDT'', alertTimer = FuncTimer (Some 60000000000)\<rparr>"
    by (simp add: timerFires_def)
  have s0: "iterationA (Some (\<lambda>now m. True)) priceTargetsA 0 initialState
        (Decoded (tick ''SOLUSDT'' ''208.9''))
     = (fst (sendTelegramChats (Some (\<lambda>now m. True)) 0 (tick ''SOLUSDT'' ''208.9'')
          (Finite (7350015329357005 / 35184372088832)) (Finite 210))
        @ [Log (LogAlert ''SOLUSDT'' (Finite (7350015329357005 / 35184372088832)) (Finite 210))],
        Continue,
        \<lparr>alertEmitted = True, lastSymbol = ''SOLUSDT'',
         alertTimer = FuncTimer (Some 60000000000)\<rparr>)"
    by (simp add: iterationA_SOL_2089) (simp add: initialState_def minute_def)
  have s1: "iterationA (Some (\<lambda>now m. True)) priceTargetsA 1000000000
        \<lparr>alertEmitted = True, lastSymbol = ''SOLUSDT'', alertTimer = FuncTimer (Some 60000000000)\<rparr>
        (Decoded (tick ''SOLUSDT'' ''208.9''))
     = ([], Continue,
        \<lparr>alertEmitted = True, lastSymbol = ''SOLUSDT'', alertTimer = FuncTimer (Some 60000000000)\<rparr>)"
    by (simp add: iterationA_SOL_2089_closed)
  have s2: "fst (iterationA (Some (\<lambda>now m. True)) priceTargetsA 2000000000
        \<lparr>alertEmitted = True, lastSymbol = ''SOLUSDT'', alertTimer = FuncTimer (Some 60000000000)\<rparr>
        (Decoded (tick ''AVAXUSDT'' ''47'')))
     = fst (sendTelegramChats (Some (\<lambda>now m. True)) 2000000000 (tick ''AVAXUSDT'' ''47'')
          (Finite 47) (Finite 47))
        @ [Log (LogAlert ''AVAXUSDT'' (Finite 47) (Finite 47))]"
    "fst (snd (iterationA (Some (\<lambda>now m. True)) priceTargetsA 2000000000
        \<lparr>alertEmitted = True, lastSymbol = ''SOLUSDT'', alertTimer = FuncTimer (Some 60000000000)\<rparr>
        (Decoded (tick ''AVAXUSDT'' ''47'')))) = Continue"
    by (simp_all add: iterationA_AVAX_47)
  have r: "sends (fst (readLoopA (Some (\<lambda>now m. True)) priceTargetsA initialState
        [(0, Decoded (tick ''SOLUSDT'' ''208.9'')),
         (1000000000, Decoded (tick ''SOLUSDT'' ''208.9'')),
         (2000000000, Decoded (tick ''AVAXUSDT'' ''47''))]))
     = fanout (''SOLUSDT'', Finite (7350015329357005 / 35184372088832), Finite 210)
       @ fanout (''AVAXUSDT'', Finite 47, Finite 47)"
    using sends_sendTelegramChats[of "\<lambda>now m. True" 0 "tick ''SOLUSDT'' ''208.9''"]
      sends_sendTelegramChats[of "\<lambda>now m. True" 2000000000 "tick ''AVAXUSDT'' ''47''"]
    by (simp add: readLoopA_Cons Let_def s0 s1 s2 t1 t2 sends_append del: readLoopA.simps(2))
  show ?thesis
    using n r by (simp add: botTelegram_def)
qed

section \<open>The evaluated price\<close>

text \<open>
  C5 (as the code has it). Every price a tick propagates, into an alert, a Telegram
  message or the price log, is the value \<^verbatim>\<open>strconv.ParseFloat\<close> returned without error for
  the tick's price field. The loops check neither its sign nor its finiteness, and
  \<^verbatim>\<open>ParseFloat\<close> accepts negative numbers, infinities and NaN. A tick whose price field
  fails to parse is logged and dropped before evaluation: nothing of it is propagated
  and the alert state stays as it is.
\<close>

theorem propagated_price_is_parse_result:
  "(q \<in> set (concat (map eventPrices (fst (iterationA botClient priceTargets now st (Decoded trade)))))
      \<longrightarrow> ParseFloat (Price trade) = Inr q)
   \<and> (q' \<in> set (concat (map eventPrices (fst (iterationB priceTargets' (Decoded trade')))))
      \<longrightarrow> ParseFloat (Price trade') = Inr q')
   \<and> (TrimSpace (Event trade2) = ''trade'' \<and> ParseFloat (Price trade2) = Inl err
      \<longrightarrow> iterationA botClient priceTargets now st (Decoded trade2)
            = ([Log (LogPriceError err)], Continue, st)
        \<and> iterationB priceTargets' (Decoded trade2) = ([Log (LogPriceError err)], Continue))"
proof (intro conjI impI)
  assume "q \<in> set (concat (map eventPrices (fst (iterationA botClient priceTargets now st (Decoded trade)))))"
  then show "ParseFloat (Price trade) = Inr q"
    using eventPrices_checkTargetsA[of q botClient now trade _ _ st]
    by (auto simp: fst_iterationA_Decoded split: if_splits sum.splits option.splits)
next
  assume "q' \<in> set (concat (map eventPrices (fst (iterationB priceTargets' (Decoded trade')))))"
  then show "ParseFloat (Price trade') = Inr q'"
    using eventPrices_checkTargetsB[of q' trade']
    by (auto simp: iterationB_def split: if_splits sum.splits option.splits)
next
  assume a: "TrimSpace (Event trade2) = ''trade'' \<and> ParseFloat (Price trade2) = Inl err"
  then show "iterationA botClient priceTargets now st (Decoded trade2)
            = ([Log (LogPriceError err)], Continue, st)"
    by (simp add: iterationA_def)
  from a show "iterationB priceTargets' (Decoded trade2) = ([Log (LogPriceError err)], Continue)"
    by (simp add: iterationB_def)
qed

theorem propagated_price_is_parse_result_witness:
  "Finite (7350015329357005 / 35184372088832)
     \<in> set (concat (map eventPrices (fst (iterationA (Some (\<lambda>now m. True)) priceTargetsA 0
          initialState (Decoded (tick ''SOLUSDT'' ''208.9''))))))
   \<and> ParseFloat (Price (tick ''SOLUSDT'' ''208.9'')) = Inr (Finite (7350015329357005 / 35184372088832))
   \<and> Finite (7350015329357005 / 35184372088832)
     \<in> set (concat (map eventPrices (fst (iterationB priceTargetsB
          (Decoded (tick ''SOLUSDT'' ''208.9''))))))
   \<and> TrimSpace (Event (tick ''SOLUSDT'' ''abc'')) = ''trade''
   \<and> ParseFloat (Price (tick ''SOLUSDT'' ''abc'')) = Inl ErrSyntax
   \<and> iterationA (Some (\<lambda>now m. True)) priceTargetsA 0 initialState
        (Decoded (tick ''SOLUSDT'' ''abc''))
       = ([Log (LogPriceError ErrSyntax)], Continue, initialState)
   \<and> iterationB priceTargetsB (Decoded (tick ''SOLUSDT'' ''abc''))
       = ([Log (LogPriceError ErrSyntax)], Continue)"
  using propagated_price_is_parse_result
    [where q = "Finite (7350015329357005 / 35184372088832)"
       and botClient = "Some (\<lambda>now m. True)"
       and priceTargets = priceTargetsA and now = 0 and st = initialState
       and trade = "tick ''SOLUSDT'' ''208.9''"
       and q' = "Finite (7350015329357005 / 35184372088832)" and priceTargets' = priceTargetsB
       and trade' = "tick ''SOLUSDT'' ''208.9''" and ?trade2.0 = "tick ''SOLUSDT'' ''abc''"
       and err = ErrSyntax]
  by (simp add: iterationA_SOL_2089 sendTelegramChats_ok iterationB_tick ParseFloat_2089
      priceTargetsB_SOLUSDT checkTargetsB_filter within_2089 TrimSpace_trade ParseFloat_abc)

text \<open>
  C5 as stated has every evaluated price non-negative and finite. The price \<^verbatim>\<open>"-1"\<close>
  parses to -1 and is evaluated against the targets of SOLUSDT; for a symbol that is not
  configured the prices -1, NaN and +Inf go into the price log.
\<close>

theorem negative_price_counterexample:
  "ParseFloat (Price (tick ''SOLUSDT'' ''-1'')) = Inr (Finite (- 1))
   \<and> iterationB priceTargetsB (Decoded (tick ''SOLUSDT'' ''-1''))
       = (checkTargetsB (tick ''SOLUSDT'' ''-1'') (Finite (- 1))
            [Finite 210, Finite 200, Finite 190], Continue)
   \<and> iterationB priceTargetsB (Decoded (tick ''DOGEUSDT'' ''-1''))
       = ([Log (LogCurrentPrice ''DOGEUSDT'' (Finite (- 1)))], Continue)
   \<and> iterationA (Some (\<lambda>now m. True)) priceTargetsA 0 initialState
        (Decoded (tick ''DOGEUSDT'' ''NaN''))
       = ([Log (LogCurrentPrice ''DOGEUSDT'' NaN)], Continue, initialState)
   \<and> iterationA (Some (\<lambda>now m. True)) priceTargetsA 0 initialState
        (Decoded (tick ''DOGEUSDT'' ''Inf''))
       = ([Log (LogCurrentPrice ''DOGEUSDT'' PInf)], Continue, initialState)"
  by (simp add: iterationA_absent iterationB_tick ParseFloat_minus1 ParseFloat_NaN ParseFloat_Inf
      priceTargetsB_SOLUSDT priceTargetsB_DOGEUSDT priceTargetsA_DOGEUSDT pollTimer_id)

section \<open>Price parse failures\<close>

text \<open>
  C6. In both variants a trade event whose price field \<^verbatim>\<open>strconv.ParseFloat\<close> rejects is
  logged, and only that frame is skipped: the loop neither returns nor panics, and goes
  on with the frames that follow exactly as it would have without the bad one (in variant
  A from the same alert state).
\<close>

theorem price_parse_failure_skips_frame:
  "TrimSpace (Event trade) = ''trade'' \<Longrightarrow> ParseFloat (Price trade) = Inl err \<Longrightarrow>
   readLoopA botClient priceTargets st ((now, Decoded trade) # frames) =
     (Log (LogPriceError err) # fst (readLoopA botClient priceTargets (timerFires now st) frames),
      snd (readLoopA botClient priceTargets (timerFires now st) frames))
   \<and> readLoopB priceTargets' (Decoded trade # frames') =
     (Log (LogPriceError err) # fst (readLoopB priceTargets' frames'),
      snd (readLoopB priceTargets' frames'))"
  by (simp add: iterationA_def iterationB_def split: prod.splits)

theorem price_parse_failure_skips_frame_witness:
  "TrimSpace (Event (tick ''SOLUSDT'' ''abc'')) = ''trade''
   \<and> ParseFloat (Price (tick ''SOLUSDT'' ''abc'')) = Inl ErrSyntax
   \<and> readLoopA (Some (\<lambda>now m. True)) priceTargetsA initialState
        [(0, Decoded (tick ''SOLUSDT'' ''abc'')), (1, Decoded (tick ''SOLUSDT'' ''208.9''))] =
       (Log (LogPriceError ErrSyntax)
          # map (\<lambda>c. Send \<lparr>ChatID = c, AlertSymbol = ''SOLUSDT'',
                 AlertPrice = Finite (7350015329357005 / 35184372088832), Target = Finite 210\<rparr>)
              chatIds
          @ [Log (LogAlert ''SOLUSDT'' (Finite (7350015329357005 / 35184372088832)) (Finite 210))],
        Reading \<lparr>alertEmitted = True, lastSymbol = ''SOLUSDT'',
                 alertTimer = FuncTimer (Some (1 + minute))\<rparr>)
   \<and> readLoopB priceTargetsB
        [Decoded (tick ''SOLUSDT'' ''abc''), Decoded (tick ''SOLUSDT'' ''208.9'')] =
       ([Log (LogPriceError ErrSyntax),
         Log (LogAlert ''SOLUSDT'' (Finite (7350015329357005 / 35184372088832)) (Finite 210))],
        Reading ())"
proof -
  have a: "TrimSpace (Event (tick ''SOLUSDT'' ''abc'')) = ''trade''" by (simp add: TrimSpace_trade)
  have b: "ParseFloat (Price (tick ''SOLUSDT'' ''abc'')) = Inl ErrSyntax" by (simp add: ParseFloat_abc)
  have c: "readLoopA (Some (\<lambda>now m. True)) priceTargetsA initialState
        [(1, Decoded (tick ''SOLUSDT'' ''208.9''))] =
       (map (\<lambda>c. Send \<lparr>ChatID = c, AlertSymbol = ''SOLUSDT'',
                 AlertPrice = Finite (7350015329357005 / 35184372088832), Target = Finite 210\<rparr>)
              chatIds
          @ [Log (LogAlert ''SOLUSDT'' (Finite (7350015329357005 / 35184372088832)) (Finite 210))],
        Reading \<lparr>alertEmitted = True, lastSymbol = ''SOLUSDT'',
                 alertTimer = FuncTimer (Some (1 + minute))\<rparr>)"
    by (simp add: iterationA_SOL_2089 sendTelegramChats_ok; simp add: initialState_def)
  show ?thesis
    using price_parse_failure_skips_frame [OF a b, of "Some (\<lambda>now m. True)" priceTargetsA
        initialState 0 "[(1, Decoded (tick ''SOLUSDT'' ''208.9''))]" priceTargetsB
        "[Decoded (tick ''SOLUSDT'' ''208.9'')]"]
    by (simp only: a b c readLoopB_SOL_2089 timerFires_initial fst_conv snd_conv simp_thms)
qed

section \<open>Symbols that are not configured\<close>

text \<open>
  C7. In both variants a decoded trade tick whose symbol is not in the target table
  raises no alert and sends no notification, whatever its price field holds. When the
  price parses, the only effect is the log line with the current price; in variant A the
  alert state stays as it is (in every state whose timer channel holds no tick, as it
  does from the start of \<^verbatim>\<open>main\<close> on).
\<close>

theorem absent_symbol_raises_no_alert:
  "priceTargets (Symbol trade) = None \<Longrightarrow> priceTargets' (Symbol trade) = None \<Longrightarrow>
   sends (fst (iterationA botClient priceTargets now st (Decoded trade))) = []
   \<and> alerts (fst (iterationA botClient priceTargets now st (Decoded trade))) = []
   \<and> alerts (fst (iterationB priceTargets' (Decoded trade))) = []
   \<and> (TrimSpace (Event trade) = ''trade'' \<and> ParseFloat (Price trade) = Inr p
        \<and> alertTimer st \<noteq> ChanTimer True \<longrightarrow>
      iterationA botClient priceTargets now st (Decoded trade)
        = ([Log (LogCurrentPrice (Symbol trade) p)], Continue, st)
      \<and> iterationB priceTargets' (Decoded trade)
        = ([Log (LogCurrentPrice (Symbol trade) p)], Continue))"
  by (simp add: iterationA_def iterationB_def pollTimer_id split: sum.splits)

theorem absent_symbol_raises_no_alert_witness:
  "priceTargetsA (Symbol (tick ''DOGEUSDT'' ''205.00'')) = None
   \<and> priceTargetsB (Symbol (tick ''DOGEUSDT'' ''205.00'')) = None
   \<and> TrimSpace (Event (tick ''DOGEUSDT'' ''205.00'')) = ''trade''
   \<and> ParseFloat (Price (tick ''DOGEUSDT'' ''205.00'')) = Inr (Finite 205)
   \<and> alertTimer initialState \<noteq> ChanTimer True
   \<and> iterationA (Some (\<lambda>now m. True)) priceTargetsA 0 initialState
        (Decoded (tick ''DOGEUSDT'' ''205.00''))
       = ([Log (LogCurrentPrice ''DOGEUSDT'' (Finite 205))], Continue, initialState)
   \<and> iterationB priceTargetsB (Decoded (tick ''DOGEUSDT'' ''205.00''))
       = ([Log (LogCurrentPrice ''DOGEUSDT'' (Finite 205))], Continue)
   \<and> sends (fst (iterationA (Some (\<lambda>now m. True)) priceTargetsA 0 initialState
        (Decoded (tick ''DOGEUSDT'' ''205.00'')))) = []"
  using absent_symbol_raises_no_alert
    [where trade = "tick ''DOGEUSDT'' ''205.00''" and priceTargets = priceTargetsA
       and priceTargets' = priceTargetsB and botClient = "Some (\<lambda>now m. True)" and now = 0
       and st = initialState and p = "Finite 205"]
  by (simp add: priceTargetsA_DOGEUSDT priceTargetsB_DOGEUSDT TrimSpace_trade ParseFloat_205)

section \<open>The subscription handshake\<close>

text \<open>
  C8. In both variants the subscription derives one stream name per configured symbol,
  the lower-cased symbol followed by \<^verbatim>\<open>@trade\<close>; the connection path is the stream names
  joined by \<^verbatim>\<open>/\<close>, after the base URL and a \<^verbatim>\<open>/\<close>; and once the connection is made
  exactly one control message is written, with method \<^verbatim>\<open>SUBSCRIBE\<close>, the stream names
  as params and the request id \<^verbatim>\<open>uuid.New()\<close> generated as id, and no other key. When the
  dial fails nothing is written.
\<close>

theorem subscription_contract:
  "assetsOf keys = map (\<lambda>symbol. ToLower symbol @ ''@trade'') keys
   \<and> length (assetsOf keys) = length keys
   \<and> (distinct keys \<and> set keys = dom priceTargets
        \<longrightarrow> length (assetsOf keys) = card (dom priceTargets))
   \<and> fst (subscribe keys requestID True written)
       = [Dial (binanceWSSURL @ ''/'' @ Join (assetsOf keys) ''/''),
          WriteJSON (subscribeMessage (assetsOf keys) requestID)]
   \<and> fst (subscribe keys requestID False written)
       = [Dial (binanceWSSURL @ ''/'' @ Join (assetsOf keys) ''/'')]
   \<and> subscribeMessage assets requestID ''method'' = Some (JString ''SUBSCRIBE'')
   \<and> subscribeMessage assets requestID ''params'' = Some (JArray assets)
   \<and> subscribeMessage assets requestID ''id'' = Some (JString requestID)
   \<and> dom (subscribeMessage assets requestID) = {''method'', ''params'', ''id''}"
proof -
  have "distinct keys \<and> set keys = dom priceTargets
        \<longrightarrow> length (assetsOf keys) = card (dom priceTargets)"
    using distinct_card[of keys] by (auto simp: assetsOf_def)
  then show ?thesis
    by (auto simp: assetsOf_def subscribe_def subscribeMessage_def Let_def)
qed

theorem subscription_contract_witness:
  "distinct [''LINKUSDT'', ''KSMUSDT'', ''COTIUSDT'', ''SOLUSDT'', ''XLMUSDT'', ''ALGOUSDT'',
      ''PENDLEUSDT'', ''RNDRUSDT'', ''RAYUSDT'', ''JASMYUSDT'', ''GALAUSDT'', ''AVAXUSDT'',
      ''KDAUSDT'', ''ICPUSDT'', ''DIAUSDT'', ''SUPERUSDT'', ''RSRUSDT'', ''TAOUSDT'', ''ONDOUSDT'',
      ''ZILUSDT'', ''LITUSDT'', ''TIAUSDT'']
   \<and> set [''LINKUSDT'', ''KSMUSDT'', ''COTIUSDT'', ''SOLUSDT'', ''XLMUSDT'', ''ALGOUSDT'',
      ''PENDLEUSDT'', ''RNDRUSDT'', ''RAYUSDT'', ''JASMYUSDT'', ''GALAUSDT'', ''AVAXUSDT'',
      ''KDAUSDT'', ''ICPUSDT'', ''DIAUSDT'', ''SUPERUSDT'', ''RSRUSDT'', ''TAOUSDT'', ''ONDOUSDT'',
      ''ZILUSDT'', ''LITUSDT'', ''TIAUSDT''] = dom priceTargetsA
   \<and> card (dom priceTargetsA) = 22
   \<and> fst (subscribe [''LINKUSDT'', ''KSMUSDT'', ''COTIUSDT'', ''SOLUSDT'', ''XLMUSDT'', ''ALGOUSDT'',
      ''PENDLEUSDT'', ''RNDRUSDT'', ''RAYUSDT'', ''JASMYUSDT'', ''GALAUSDT'', ''AVAXUSDT'',
      ''KDAUSDT'', ''ICPUSDT'', ''DIAUSDT'', ''SUPERUSDT'', ''RSRUSDT'', ''TAOUSDT'', ''ONDOUSDT'',
      ''ZILUSDT'', ''LITUSDT'', ''TIAUSDT''] ''3f2b8c1e-7a4d-4e6f-9b0a-5c1d2e3f4a5b'' True True)
     = [Dial (''wss://stream.binance.com:9443/ws'' @ ''/'' @ Join
          [''linkusdt@trade'', ''ksmusdt@trade'', ''cotiusdt@trade'', ''solusdt@trade'',
           ''xlmusdt@trade'', ''algousdt@trade'', ''pendleusdt@trade'', ''rndrusdt@trade'',
           ''rayusdt@trade'', ''jasmyusdt@trade'', ''galausdt@trade'', ''avaxusdt@trade'',
           ''kdausdt@trade'', ''icpusdt@trade'', ''diausdt@trade'', ''superusdt@trade'',
           ''rsrusdt@trade'', ''taousdt@trade'', ''ondousdt@trade'', ''zilusdt@trade'',
           ''litusdt@trade'', ''tiausdt@trade''] ''/''),
        WriteJSON (subscribeMessage
          [''linkusdt@trade'', ''ksmusdt@trade'', ''cotiusdt@trade'', ''solusdt@trade'',
           ''xlmusdt@trade'', ''algousdt@trade'', ''pendleusdt@trade'', ''rndrusdt@trade'',
           ''rayusdt@trade'', ''jasmyusdt@trade'', ''galausdt@trade'', ''avaxusdt@trade'',
           ''kdausdt@trade'', ''icpusdt@trade'', ''diausdt@trade'', ''superusdt@trade'',
           ''rsrusdt@trade'', ''taousdt@trade'', ''ondousdt@trade'', ''zilusdt@trade'',
           ''litusdt@trade'', ''tiausdt@trade''] ''3f2b8c1e-7a4d-4e6f-9b0a-5c1d2e3f4a5b'')]
   \<and> Join [''linkusdt@trade'', ''ksmusdt@trade'', ''cotiusdt@trade''] ''/''
       = ''linkusdt@trade/ksmusdt@trade/cotiusdt@trade''"
proof -
  note t = subscription_contract
    [where keys = "[''LINKUSDT'', ''KSMUSDT'', ''COTIUSDT'', ''SOLUSDT'', ''XLMUSDT'', ''ALGOUSDT'',
      ''PENDLEUSDT'', ''RNDRUSDT'', ''RAYUSDT'', ''JASMYUSDT'', ''GALAUSDT'', ''AVAXUSDT'',
      ''KDAUSDT'', ''ICPUSDT'', ''DIAUSDT'', ''SUPERUSDT'', ''RSRUSDT'', ''TAOUSDT'', ''ONDOUSDT'',
      ''ZILUSDT'', ''LITUSDT'', ''TIAUSDT'']" and priceTargets = priceTargetsA
      and requestID = "''3f2b8c1e-7a4d-4e6f-9b0a-5c1d2e3f4a5b''" and written = True]
  have d: "distinct [''LINKUSDT'', ''KSMUSDT'', ''COTIUSDT'', ''SOLUSDT'', ''XLMUSDT'', ''ALGOUSDT'',
      ''PENDLEUSDT'', ''RNDRUSDT'', ''RAYUSDT'', ''JASMYUSDT'', ''GALAUSDT'', ''AVAXUSDT'',
      ''KDAUSDT'', ''ICPUSDT'', ''DIAUSDT'', ''SUPERUSDT'', ''RSRUSDT'', ''TAOUSDT'', ''ONDOUSDT'',
      ''ZILUSDT'', ''LITUSDT'', ''TIAUSDT'']" by simp
  have c: "card (dom priceTargetsA) = 22"
    using t[THEN conjunct2, THEN conjunct2, THEN conjunct1] t[THEN conjunct2, THEN conjunct1]
      d dom_priceTargetsA by simp
  have j: "Join [''linkusdt@trade'', ''ksmusdt@trade'', ''cotiusdt@trade''] ''/''
       = ''linkusdt@trade/ksmusdt@trade/cotiusdt@trade''" by simp
  note d2 = dom_priceTargetsA[symmetric]
  show ?thesis
    using t[THEN conjunct2, THEN conjunct2, THEN conjunct2, THEN conjunct1]
    by (simp only: d d2 c j assetsOf_A binanceWSSURL_def simp_thms)
qed

section \<open>Fan-out of a notification\<close>

text \<open>
  C9 (where the code departs from it). \<^verbatim>\<open>sendMessage\<close> logs the error \<^verbatim>\<open>bot.Send\<close>
  returns and goes on, so with a created client every chat of \<open>chatIds\<close> is tried, in
  order, whatever becomes of each delivery. But \<^verbatim>\<open>botTelegram\<close> keeps the nil client when
  \<^verbatim>\<open>NewBotAPI\<close> fails, and on it \<^verbatim>\<open>bot.Send\<close> panics instead of returning an error: the
  first delivery ends the loop over the chats, no other chat is tried, and the read loop
  ends with it, so no later tick is processed.
\<close>

theorem nil_client_stops_fanout:
  "sendMessage (snd (botTelegram None)) now message = ([], Panic)
   \<and> sendTelegramChats (snd (botTelegram None)) now trade p t = ([], Panic)
   \<and> readLoopA (snd (botTelegram None)) priceTargetsA initialState
        [(0, Decoded (tick ''SOLUSDT'' ''208.9'')), (1, Decoded (tick ''DOGEUSDT'' ''205.00''))]
     = ([], Panicked)
   \<and> sendTelegramChats (snd (botTelegram (Some (\<lambda>now m. False)))) 0 (tick ''SOLUSDT'' ''208.9'')
        (Finite (7350015329357005 / 35184372088832)) (Finite 210)
     = ([Send \<lparr>ChatID = - 1002314879454, AlertSymbol = ''SOLUSDT'',
               AlertPrice = Finite (7350015329357005 / 35184372088832), Target = Finite 210\<rparr>,
         Log (LogSendError (- 1002314879454)),
         Send \<lparr>ChatID = 6753790669, AlertSymbol = ''SOLUSDT'',
               AlertPrice = Finite (7350015329357005 / 35184372088832), Target = Finite 210\<rparr>,
         Log (LogSendError 6753790669),
         Send \<lparr>ChatID = 6717764833, AlertSymbol = ''SOLUSDT'',
               AlertPrice = Finite (7350015329357005 / 35184372088832), Target = Finite 210\<rparr>,
         Log (LogSendError 6717764833)],
        Continue)"
  by (simp add: botTelegram_def sendTelegramChats_nil iterationA_SOL_2089_nil)
    (simp add: sendMessage_def sendTelegramChats_def chatIds_def)

section \<open>The first alert and the recorded symbol\<close>

text \<open>
  C10 (where the code departs from it). Variant A does start with suppression inactive,
  and the first tick that matches a configured target takes the alert branch. With the
  nil client \<^verbatim>\<open>botTelegram\<close> keeps when \<^verbatim>\<open>NewBotAPI\<close> fails, that branch panics in
  \<^verbatim>\<open>bot.Send\<close> before anything is handed over: the first matching tick of the run
  delivers nothing and ends the process. With a created client the same tick is sent to
  every chat and the recorded symbol is its symbol.
\<close>

theorem nil_client_first_match_panics:
  "\<not> alertEmitted initialState
   \<and> \<not> matching priceTargetsA (Decoded (tick ''DOGEUSDT'' ''205.00''))
   \<and> \<not> matching priceTargetsA (Decoded (tick ''SOLUSDT'' ''205.00''))
   \<and> matching priceTargetsA (Decoded (tick ''SOLUSDT'' ''208.9''))
   \<and> readLoopA (snd (botTelegram None)) priceTargetsA initialState
        [(0, Decoded (tick ''DOGEUSDT'' ''205.00'')), (1, Decoded (tick ''SOLUSDT'' ''205.00'')),
         (2, Decoded (tick ''SOLUSDT'' ''208.9''))]
     = ([Log (LogCurrentPrice ''DOGEUSDT'' (Finite 205))], Panicked)
   \<and> readLoopA (snd (botTelegram (Some (\<lambda>now m. True)))) priceTargetsA initialState
        [(0, Decoded (tick ''DOGEUSDT'' ''205.00'')), (1, Decoded (tick ''SOLUSDT'' ''205.00'')),
         (2, Decoded (tick ''SOLUSDT'' ''208.9''))]
     = (Log (LogCurrentPrice ''DOGEUSDT'' (Finite 205))
          # map (\<lambda>c. Send \<lparr>ChatID = c, AlertSymbol = ''SOLUSDT'',
                 AlertPrice = Finite (7350015329357005 / 35184372088832), Target = Finite 210\<rparr>)
              chatIds
          @ [Log (LogAlert ''SOLUSDT'' (Finite (7350015329357005 / 35184372088832)) (Finite 210))],
        Reading \<lparr>alertEmitted = True, lastSymbol = ''SOLUSDT'',
                 alertTimer = FuncTimer (Some 60000000002)\<rparr>)"
  by (simp add: botTelegram_def matching_SOL_2089 not_matching_before iterationA_DOGE_205
      iterationA_SOL_205 iterationA_SOL_2089_nil iterationA_SOL_2089 sendTelegramChats_ok)
    (simp add: initialState_def minute_def)

end
